theory Spec2Isabelle
  imports Main "HOL-Library.AList" "HOL-Library.Word"
begin

section \<open>Python values, dictionaries and exceptions\<close>

text \<open>
  The telemetry handler of \<^verbatim>\<open>access_py_telemetry/api.py\<close> moves untyped Python
  values around: positional and keyword arguments of the instrumented call, the extra
  fields of a service, the telemetry record itself. \<open>pyval\<close> is the universe of these
  values. A dictionary keeps its insertion order, so it is an association list; the
  dictionaries the handler builds itself all have string keys (\<open>pydict\<close>). A \<open>string\<close>
  is a Python \<^verbatim>\<open>str\<close>, one \<open>char\<close> for each code point; a \<open>char\<close> holds the code points
  below 256, and text with other code points is outside the universe.

  \<open>PyIterator\<close> is the lazy validating iterator that \<^verbatim>\<open>pydantic.validate_call\<close> hands to
  a function body for a parameter annotated \<^verbatim>\<open>Iterable[...]\<close>; it carries the items still
  to be drawn.
\<close>

datatype pyval =
    PyNone
  | PyBool bool
  | PyInt int
  | PyStr string
  | PyList "pyval list"
  | PyDict "(pyval \<times> pyval) list"
  | PyIterator "pyval list"

type_synonym pydict = "(string \<times> pyval) list"

text \<open>
  Every exception of the module is a value. Python raises \<^verbatim>\<open>KeyError\<close> both when a
  service has no endpoint (lines 70 and 138) and when \<^verbatim>\<open>dict.pop\<close> misses its key
  (line 173); the payload tells the two apart.
\<close>

datatype key_error = EndpointNotFound string | MissingField string

datatype exn =
    KeyError key_error
  | ValidationError
  | RequestError string
  | HTTPStatusError string
  | TimeoutError
  | OtherException string

text \<open>\<^verbatim>\<open>d.get(k, default)\<close> and \<^verbatim>\<open>k in d\<close> on an insertion-ordered dictionary.\<close>

definition dict_get :: "('k \<times> 'v) list \<Rightarrow> 'k \<Rightarrow> 'v \<Rightarrow> 'v" where
  "dict_get d k dflt = (case map_of d k of None \<Rightarrow> dflt | Some v \<Rightarrow> v)"

definition dict_keys :: "('k \<times> 'v) list \<Rightarrow> 'k list" where
  "dict_keys d = map fst d"

section \<open>The session identifier\<close>

text \<open>
  \<^verbatim>\<open>SessionID.create_session_id\<close> (lines 212-218) hashes \<^verbatim>\<open>f"{login}_{timestamp}"\<close> with
  \<^verbatim>\<open>hashlib.sha256\<close> and returns the hexadecimal digest. SHA-256 is written out here
  as FIPS 180-4 defines it: padding to a multiple of 64 bytes, big-endian 32-bit words,
  the 64-entry message schedule and 64 rounds per block, all on \<open>32 word\<close>.
\<close>

unbundle bit_operations_syntax

type_synonym word32 = "32 word"

type_synonym hash = "word32 \<times> word32 \<times> word32 \<times> word32 \<times> word32 \<times> word32 \<times> word32 \<times> word32"

definition rotr :: "nat \<Rightarrow> word32 \<Rightarrow> word32" where
  "rotr n x = drop_bit n x OR push_bit (32 - n) x"

definition Ch :: "word32 \<Rightarrow> word32 \<Rightarrow> word32 \<Rightarrow> word32" where
  "Ch x y z = (x AND y) XOR (NOT x AND z)"

definition Maj :: "word32 \<Rightarrow> word32 \<Rightarrow> word32 \<Rightarrow> word32" where
  "Maj x y z = (x AND y) XOR (x AND z) XOR (y AND z)"

definition Sigma0 :: "word32 \<Rightarrow> word32" where
  "Sigma0 x = rotr 2 x XOR rotr 13 x XOR rotr 22 x"

definition Sigma1 :: "word32 \<Rightarrow> word32" where
  "Sigma1 x = rotr 6 x XOR rotr 11 x XOR rotr 25 x"

definition sigma0 :: "word32 \<Rightarrow> word32" where
  "sigma0 x = rotr 7 x XOR rotr 18 x XOR drop_bit 3 x"

definition sigma1 :: "word32 \<Rightarrow> word32" where
  "sigma1 x = rotr 17 x XOR rotr 19 x XOR drop_bit 10 x"

definition K256 :: "word32 list" where
  "K256 =
    [0x428A2F98, 0x71374491, 0xB5C0FBCF, 0xE9B5DBA5, 0x3956C25B, 0x59F111F1, 0x923F82A4, 0xAB1C5ED5,
     0xD807AA98, 0x12835B01, 0x243185BE, 0x550C7DC3, 0x72BE5D74, 0x80DEB1FE, 0x9BDC06A7, 0xC19BF174,
     0xE49B69C1, 0xEFBE4786, 0x0FC19DC6, 0x240CA1CC, 0x2DE92C6F, 0x4A7484AA, 0x5CB0A9DC, 0x76F988DA,
     0x983E5152, 0xA831C66D, 0xB00327C8, 0xBF597FC7, 0xC6E00BF3, 0xD5A79147, 0x06CA6351, 0x14292967,
     0x27B70A85, 0x2E1B2138, 0x4D2C6DFC, 0x53380D13, 0x650A7354, 0x766A0ABB, 0x81C2C92E, 0x92722C85,
     0xA2BFE8A1, 0xA81A664B, 0xC24B8B70, 0xC76C51A3, 0xD192E819, 0xD6990624, 0xF40E3585, 0x106AA070,
     0x19A4C116, 0x1E376C08, 0x2748774C, 0x34B0BCB5, 0x391C0CB3, 0x4ED8AA4A, 0x5B9CCA4F, 0x682E6FF3,
     0x748F82EE, 0x78A5636F, 0x84C87814, 0x8CC70208, 0x90BEFFFA, 0xA4506CEB, 0xBEF9A3F7, 0xC67178F2]"

definition H256 :: hash where
  "H256 = (0x6A09E667, 0xBB67AE85, 0x3C6EF372, 0xA54FF53A,
           0x510E527F, 0x9B05688C, 0x1F83D9AB, 0x5BE0CD19)"

definition sha256_pad :: "8 word list \<Rightarrow> 8 word list" where
  "sha256_pad msg =
     msg @ [0x80] @ replicate ((119 - length msg mod 64) mod 64) 0
       @ map (\<lambda>i. ucast (drop_bit (8 * i) (of_nat (8 * length msg) :: 64 word)))
           [7, 6, 5, 4, 3, 2, 1, 0]"

fun be_words :: "8 word list \<Rightarrow> word32 list" where
  "be_words (a # b # c # d # rest) =
     (push_bit 24 (ucast a) OR push_bit 16 (ucast b) OR push_bit 8 (ucast c) OR ucast d)
       # be_words rest"
| "be_words _ = []"

fun blocks :: "word32 list \<Rightarrow> word32 list list" where
  "blocks ws = (if length ws < 16 then [] else take 16 ws # blocks (drop 16 ws))"

definition next_w :: "word32 list \<Rightarrow> word32 list" where
  "next_w ws =
     (let t = length ws
      in ws @ [sigma1 (ws ! (t - 2)) + ws ! (t - 7) + sigma0 (ws ! (t - 15)) + ws ! (t - 16)])"

definition schedule :: "word32 list \<Rightarrow> word32 list" where
  "schedule block = (next_w ^^ 48) block"

fun round256 :: "hash \<Rightarrow> word32 \<times> word32 \<Rightarrow> hash" where
  "round256 (a, b, c, d, e, f, g, h) (k, w) =
     (let t1 = h + Sigma1 e + Ch e f g + k + w;
          t2 = Sigma0 a + Maj a b c
      in (t1 + t2, a, b, c, d + t1, e, f, g))"

fun add_hash :: "hash \<Rightarrow> hash \<Rightarrow> hash" where
  "add_hash (a, b, c, d, e, f, g, h) (a', b', c', d', e', f', g', h') =
     (a + a', b + b', c + c', d + d', e + e', f + f', g + g', h + h')"

definition compress :: "hash \<Rightarrow> word32 list \<Rightarrow> hash" where
  "compress hs block = add_hash hs (foldl round256 hs (zip K256 (schedule block)))"

definition sha256 :: "8 word list \<Rightarrow> hash" where
  "sha256 msg = foldl compress H256 (blocks (be_words (sha256_pad msg)))"

definition hexdigit :: "nat \<Rightarrow> char" where
  "hexdigit n = ''0123456789abcdef'' ! n"

definition hex32 :: "word32 \<Rightarrow> string" where
  "hex32 w = map (\<lambda>i. hexdigit (unat (drop_bit (4 * i) w AND 0xF))) [7, 6, 5, 4, 3, 2, 1, 0]"

fun hexdigest :: "hash \<Rightarrow> string" where
  "hexdigest (a, b, c, d, e, f, g, h) = concat (map hex32 [a, b, c, d, e, f, g, h])"

text \<open>
  \<^verbatim>\<open>str.encode()\<close> gives the UTF-8 bytes of the text: one byte for a code point below
  128, and for a code point from 128 to 255 the two bytes \<^verbatim>\<open>110000xx 10xxxxxx\<close>.
\<close>

definition utf8 :: "char \<Rightarrow> 8 word list" where
  "utf8 c =
     (let b = of_nat (of_char c) :: 8 word
      in if b < 0x80 then [b] else [0xC0 OR drop_bit 6 b, 0x80 OR (b AND 0x3F)])"

definition encode :: "string \<Rightarrow> 8 word list" where
  "encode s = concat (map utf8 s)"

definition sha256_hexdigest :: "string \<Rightarrow> string" where
  "sha256_hexdigest s = hexdigest (sha256 (encode s))"

text \<open>
  \<^verbatim>\<open>getpass.getuser()\<close> and \<^verbatim>\<open>datetime.datetime.now().isoformat()\<close> are the inputs
  \<open>login\<close> and \<open>timestamp\<close>.
\<close>

definition create_session_id :: "string \<Rightarrow> string \<Rightarrow> string" where
  "create_session_id login timestamp = sha256_hexdigest (login @ ''_'' @ timestamp)"

text \<open>
  The singleton instance has one attribute of interest, \<^verbatim>\<open>value\<close>, which does not exist
  until \<^verbatim>\<open>__get__\<close> (lines 207-210) runs for the first time; \<^verbatim>\<open>__get__\<close> creates the
  identifier then and returns the stored one ever after.
\<close>

record session_id =
  sid_value :: "string option"

definition SessionID_get :: "string \<Rightarrow> string \<Rightarrow> session_id \<Rightarrow> string \<times> session_id" where
  "SessionID_get login timestamp self =
     (case sid_value self of
        None \<Rightarrow>
          (let v = create_session_id login timestamp in (v, self\<lparr>sid_value := Some v\<rparr>))
      | Some v \<Rightarrow> (v, self))"

text \<open>
  The expression \<^verbatim>\<open>SessionID()\<close> runs \<^verbatim>\<open>__new__\<close> (lines 197-200). The instance is kept
  in the class attribute \<^verbatim>\<open>_instance\<close>, and its class defines \<^verbatim>\<open>__get__\<close>, so every read
  of \<^verbatim>\<open>cls._instance\<close> goes through \<^verbatim>\<open>__get__\<close> and yields the identifier string, not
  the instance. While \<^verbatim>\<open>_instance\<close> is \<^verbatim>\<open>None\<close> the test \<^verbatim>\<open>not cls._instance\<close> holds and
  the instance is created; afterwards the test reads the string, which is false only
  when empty. \<^verbatim>\<open>return cls._instance\<close> reads the string once more. What \<^verbatim>\<open>__new__\<close>
  returns is a \<^verbatim>\<open>str\<close>, so \<^verbatim>\<open>__init__\<close> does not run. The state is the class attribute:
  \<open>None\<close>, or the instance.
\<close>

definition SessionID_new :: "string \<Rightarrow> string \<Rightarrow> session_id option \<Rightarrow> string \<times> session_id option" where
  "SessionID_new login timestamp inst =
     (let fresh = \<lparr>sid_value = None\<rparr>;
          self = (case inst of
                    None \<Rightarrow> fresh
                  | Some i \<Rightarrow>
                      (case SessionID_get login timestamp i of
                         (v, i1) \<Rightarrow> if v = [] then fresh else i1))
      in case SessionID_get login timestamp self of (v, self1) \<Rightarrow> (v, Some self1))"

section \<open>Argument validation by \<^verbatim>\<open>pydantic.validate_call\<close>\<close>

text \<open>
  \<^verbatim>\<open>add_extra_fields\<close> and \<^verbatim>\<open>remove_fields\<close> are wrapped in \<^verbatim>\<open>@pydantic.validate_call\<close>:
  the arguments are checked against the annotations before the body runs, and a
  mismatch raises \<^verbatim>\<open>ValidationError\<close>.

  For \<^verbatim>\<open>fields: dict[str, Any]\<close> the argument must be a dictionary all of whose keys
  are strings; the body receives that dictionary.
\<close>

fun str_keyed :: "(pyval \<times> pyval) list \<Rightarrow> pydict option" where
  "str_keyed [] = Some []"
| "str_keyed ((PyStr k, v) # kvs) = map_option (Cons (k, v)) (str_keyed kvs)"
| "str_keyed (_ # kvs) = None"

definition validate_dict_str_any :: "pyval \<Rightarrow> exn + pydict" where
  "validate_dict_str_any v =
     (case v of
        PyDict kvs \<Rightarrow> (case str_keyed kvs of Some d \<Rightarrow> Inr d | None \<Rightarrow> Inl ValidationError)
      | _ \<Rightarrow> Inl ValidationError)"

text \<open>
  For \<^verbatim>\<open>fields: Iterable[str]\<close> the argument must be iterable. \<open>py_iter\<close> gives the
  items Python's \<^verbatim>\<open>iter\<close> yields: the one-character strings of a string (one for each
  code point), the elements of a list, the keys of a dictionary. Validation is lazy:
  the body does not receive the argument but an iterator over its items, and each item
  is checked to be a string only when it is drawn.
\<close>

fun py_iter :: "pyval \<Rightarrow> pyval list option" where
  "py_iter (PyStr s) = Some (map (\<lambda>c. PyStr [c]) s)"
| "py_iter (PyList xs) = Some xs"
| "py_iter (PyDict kvs) = Some (map fst kvs)"
| "py_iter (PyIterator xs) = Some xs"
| "py_iter _ = None"

definition validate_iterable :: "pyval \<Rightarrow> exn + pyval" where
  "validate_iterable v =
     (case py_iter v of None \<Rightarrow> Inl ValidationError | Some items \<Rightarrow> Inr (PyIterator items))"

text \<open>
  \<^verbatim>\<open>list(fields)\<close> on what the body holds: it draws every item, and an item that is not
  a string raises \<^verbatim>\<open>ValidationError\<close> at that moment.
\<close>

fun drawn_strs :: "pyval list \<Rightarrow> exn + string list" where
  "drawn_strs [] = Inr []"
| "drawn_strs (PyStr s # xs) =
     (case drawn_strs xs of Inl e \<Rightarrow> Inl e | Inr ss \<Rightarrow> Inr (s # ss))"
| "drawn_strs (_ # xs) = Inl ValidationError"

definition list_of_fields :: "pyval \<Rightarrow> exn + string list" where
  "list_of_fields v =
     (case py_iter v of None \<Rightarrow> Inl ValidationError | Some items \<Rightarrow> drawn_strs items)"

text \<open>
  A well-typed argument seen as a Python value: a string-keyed dictionary and a list of
  strings.
\<close>

definition str_dict :: "pydict \<Rightarrow> pyval" where
  "str_dict d = PyDict (map (\<lambda>(k, v). (PyStr k, v)) d)"

definition str_list :: "string list \<Rightarrow> pyval" where
  "str_list fs = PyList (map PyStr fs)"

section \<open>The handler\<close>

text \<open>
  \<^verbatim>\<open>ApiHandler\<close> is a process-wide singleton whose state lives in class attributes, so
  one record is the state every holder of the instance sees. \<open>last_record\<close> is
  \<open>None\<close> until the first record is built (the attribute does not exist before).
  \<^verbatim>\<open>ENDPOINTS\<close> is read from the packaged \<^verbatim>\<open>config.yaml\<close> and is a parameter here.
\<close>

record handler =
  server_url :: string
  endpoints :: "(string \<times> string) list"
  registries :: "string list"
  extra_fields :: "(string \<times> pydict) list"
  pop_fields :: "(string \<times> string list) list"
  last_record :: "pydict option"

definition SERVER_URL :: string where
  "SERVER_URL = ''https://tracking-services-d6c2fd311c12.herokuapp.com''"

definition ApiHandler :: "(string \<times> string) list \<Rightarrow> handler" where
  "ApiHandler ENDPOINTS =
     \<lparr> server_url = SERVER_URL,
       endpoints = ENDPOINTS,
       registries = dict_keys ENDPOINTS,
       extra_fields = map (\<lambda>ep_name. (ep_name, [])) (dict_keys ENDPOINTS),
       pop_fields = [],
       last_record = None \<rparr>"

text \<open>
  \<^verbatim>\<open>add_extra_fields\<close> (lines 63-72): validation, then the endpoint check, then the
  assignment \<^verbatim>\<open>self._extra_fields[service_name] = fields\<close>.
\<close>

definition add_extra_fields :: "string \<Rightarrow> pyval \<Rightarrow> handler \<Rightarrow> (exn + unit) \<times> handler" where
  "add_extra_fields service_name flds h =
     (case validate_dict_str_any flds of
        Inl e \<Rightarrow> (Inl e, h)
      | Inr fs \<Rightarrow>
          if service_name \<notin> set (dict_keys (endpoints h))
          then (Inl (KeyError (EndpointNotFound service_name)), h)
          else (Inr (), h\<lparr>extra_fields := AList.update service_name fs (extra_fields h)\<rparr>))"

text \<open>
  \<^verbatim>\<open>remove_fields\<close> (lines 90-99). The body tests \<^verbatim>\<open>isinstance(fields, str)\<close> on what
  the decorator passed in, wraps a string in a one-element list, and stores
  \<^verbatim>\<open>list(fields)\<close>. There is no endpoint check.
\<close>

definition remove_fields_body :: "string \<Rightarrow> pyval \<Rightarrow> handler \<Rightarrow> (exn + unit) \<times> handler" where
  "remove_fields_body service flds h =
     (let flds' = (case flds of PyStr s \<Rightarrow> PyList [PyStr s] | _ \<Rightarrow> flds)
      in case list_of_fields flds' of
           Inl e \<Rightarrow> (Inl e, h)
         | Inr fs \<Rightarrow> (Inr (), h\<lparr>pop_fields := AList.update service fs (pop_fields h)\<rparr>))"

definition remove_fields :: "string \<Rightarrow> pyval \<Rightarrow> handler \<Rightarrow> (exn + unit) \<times> handler" where
  "remove_fields service flds h =
     (case validate_iterable flds of
        Inl e \<Rightarrow> (Inl e, h)
      | Inr it \<Rightarrow> remove_fields_body service it h)"

text \<open>
  \<^verbatim>\<open>_create_telemetry_record\<close> (lines 147-176). The dictionary display inserts the
  five base keys and then every pair of the service's extra fields; an extra field
  whose key is already there replaces the value in place. \<^verbatim>\<open>getpass.getuser()\<close> is the
  parameter \<open>user\<close>, the clock that \<^verbatim>\<open>SessionID()\<close> may read is \<open>timestamp\<close>, and the
  state of \<^verbatim>\<open>SessionID\<close> is passed along with the handler.
\<close>

definition telemetry_data ::
  "string \<Rightarrow> string \<Rightarrow> pyval \<Rightarrow> pyval \<Rightarrow> string \<Rightarrow> pydict \<Rightarrow> pydict" where
  "telemetry_data user function_name args kwargs sid extra =
     foldl (\<lambda>d (k, v). AList.update k v d)
       [(''name'', PyStr user),
        (''function'', PyStr function_name),
        (''args'', args),
        (''kwargs'', kwargs),
        (''session_id'', PyStr sid)]
       extra"

text \<open>
  The loop \<^verbatim>\<open>for field in ...: telemetry_data.pop(field)\<close>: \<^verbatim>\<open>pop\<close> without a default
  raises \<^verbatim>\<open>KeyError\<close> when the key is not in the dictionary at that moment.
\<close>

fun pop_each :: "string list \<Rightarrow> pydict \<Rightarrow> exn + pydict" where
  "pop_each [] d = Inr d"
| "pop_each (field # rest) d =
     (if field \<in> set (dict_keys d)
      then pop_each rest (AList.delete field d)
      else Inl (KeyError (MissingField field)))"

definition create_telemetry_record ::
  "string \<Rightarrow> string \<Rightarrow> string \<Rightarrow> string \<Rightarrow> pyval \<Rightarrow> pyval \<Rightarrow> handler \<Rightarrow> session_id option
     \<Rightarrow> (exn + pydict) \<times> handler \<times> session_id option" where
  "create_telemetry_record user timestamp service_name function_name args kwargs h ss =
     (case SessionID_new user timestamp ss of
        (sid, ss1) \<Rightarrow>
          (case pop_each (dict_get (pop_fields h) service_name [])
                  (telemetry_data user function_name args kwargs sid
                     (dict_get (extra_fields h) service_name [])) of
             Inl e \<Rightarrow> (Inl e, h, ss1)
           | Inr d \<Rightarrow> (Inr d, h\<lparr>last_record := Some d\<rparr>, ss1)))"

section \<open>Delivery\<close>

text \<open>
  What the network does is an input of the model: \<open>post_outcome\<close> is the outcome of
  \<^verbatim>\<open>client.post(...)\<close> followed by \<^verbatim>\<open>response.raise_for_status()\<close>, either a normal
  return or the exception raised (\<^verbatim>\<open>httpx.RequestError\<close> for a transport failure,
  \<^verbatim>\<open>httpx.HTTPStatusError\<close> for an error status, or anything else). What the process
  shows to the outside is the \<open>world\<close>: the lines printed, the \<^verbatim>\<open>RuntimeWarning\<close>s
  issued by \<^verbatim>\<open>warnings.warn\<close>, the coroutines scheduled on the running event loop that
  have not run yet (\<open>tasks\<close>), and the coroutines submitted to an event loop that is not
  running (\<open>submitted\<close>).
\<close>

datatype post_outcome = PostOk | PostRaises exn

record world =
  printed :: "string list"
  warned :: "string list"
  tasks :: "(string \<times> pydict) list"
  submitted :: "(string \<times> pydict) list"

text \<open>
  \<^verbatim>\<open>send_telemetry\<close> (lines 221-248): the \<^verbatim>\<open>except\<close> clause turns the two httpx
  exceptions into a warning; any other exception leaves the coroutine.
\<close>

definition send_telemetry :: "post_outcome \<Rightarrow> string \<Rightarrow> pydict \<Rightarrow> world \<Rightarrow> (exn + unit) \<times> world" where
  "send_telemetry po endpoint data w =
     (let w1 = w\<lparr>printed := printed w @ [''Posting telemetry to '' @ endpoint]\<rparr>
      in case po of
           PostOk \<Rightarrow> (Inr (), w1)
         | PostRaises e \<Rightarrow>
             (case e of
                RequestError m \<Rightarrow> (Inr (), w1\<lparr>warned := warned w1 @ [''Request failed: '' @ m]\<rparr>)
              | HTTPStatusError m \<Rightarrow> (Inr (), w1\<lparr>warned := warned w1 @ [''Request failed: '' @ m]\<rparr>)
              | _ \<Rightarrow> (Inl e, w1)))"

text \<open>
  \<^verbatim>\<open>send_in_loop\<close> (lines 251-287) asks for the running event loop; whether there is one
  is the input \<open>loop_env\<close>. With a loop running, \<^verbatim>\<open>create_task\<close> schedules the coroutine
  and the call returns. Without one, \<^verbatim>\<open>get_running_loop\<close> raises \<^verbatim>\<open>RuntimeError\<close>; the
  handler creates a new loop, makes it the current loop of the thread, and submits the
  coroutine to it with \<^verbatim>\<open>run_coroutine_threadsafe\<close>, which queues the coroutine on the
  loop and returns a future. Neither this function nor any other code of the package
  runs the new loop, so the coroutine does not start: no request is posted, and the
  future is still pending when \<^verbatim>\<open>future.result(timeout=0.1)\<close> gives up and raises
  \<^verbatim>\<open>concurrent.futures.TimeoutError\<close>. The clause of line 283 catches it and prints. The
  clause of line 285, for the exception of a finished coroutine, is not reached.
\<close>

datatype loop_env = LoopRunning | NoLoop

definition send_in_loop :: "loop_env \<Rightarrow> string \<Rightarrow> pydict \<Rightarrow> world \<Rightarrow> (exn + unit) \<times> world" where
  "send_in_loop env endpoint data w =
     (case env of
        LoopRunning \<Rightarrow> (Inr (), w\<lparr>tasks := tasks w @ [(endpoint, data)]\<rparr>)
      | NoLoop \<Rightarrow>
          (let w1 = w\<lparr>submitted := submitted w @ [(endpoint, data)]\<rparr>
           in (Inr (), w1\<lparr>printed := printed w1 @ [''The coroutine took too long to complete'']\<rparr>)))"

text \<open>
  The running loop later runs the oldest scheduled coroutine; the outcome of the request
  it posts is the input \<open>po\<close>. What the coroutine raises stays in the task object; nobody
  is waiting for it. Nothing runs a coroutine of \<open>submitted\<close>.
\<close>

definition run_task :: "post_outcome \<Rightarrow> world \<Rightarrow> (exn + unit) \<times> world" where
  "run_task po w =
     (case tasks w of
        [] \<Rightarrow> (Inr (), w)
      | (endpoint, data) # ts \<Rightarrow> send_telemetry po endpoint data (w\<lparr>tasks := ts\<rparr>))"

text \<open>
  \<^verbatim>\<open>send_api_request\<close> (lines 101-145): the record is built first, then the endpoint is
  looked up, then the pair goes to \<^verbatim>\<open>send_in_loop\<close>.
\<close>

definition send_api_request ::
  "string \<Rightarrow> string \<Rightarrow> loop_env \<Rightarrow> string \<Rightarrow> string \<Rightarrow> pyval \<Rightarrow> pyval
     \<Rightarrow> handler \<Rightarrow> session_id option \<Rightarrow> world
     \<Rightarrow> (exn + unit) \<times> handler \<times> session_id option \<times> world" where
  "send_api_request user timestamp env service_name function_name args kwargs h ss w =
     (case create_telemetry_record user timestamp service_name function_name args kwargs h ss of
        (Inl e, h1, ss1) \<Rightarrow> (Inl e, h1, ss1, w)
      | (Inr data, h1, ss1) \<Rightarrow>
          (case map_of (endpoints h1) service_name of
             None \<Rightarrow> (Inl (KeyError (EndpointNotFound service_name)), h1, ss1, w)
           | Some endpoint \<Rightarrow>
               (case send_in_loop env (server_url h1 @ endpoint) data w of
                  (r, w1) \<Rightarrow> (r, h1, ss1, w1))))"

section \<open>The session identifier is computed once\<close>

lemma unat_nibble: "unat ((x :: word32) AND 0xF) < 16"
proof -
  have "unat (x AND 0xF) \<le> unat (0xF :: word32)"
    by (rule word_and_le1 [THEN word_le_nat_alt [THEN iffD1]])
  then show ?thesis by simp
qed

lemma hexdigit_hex: "n < 16 \<Longrightarrow> hexdigit n \<in> set ''0123456789abcdef''"
  unfolding hexdigit_def by (rule nth_mem) simp

lemma length_hex32: "length (hex32 w) = 8"
  by (simp add: hex32_def)

lemma set_hex32: "set (hex32 w) \<subseteq> set ''0123456789abcdef''"
proof
  fix c
  assume "c \<in> set (hex32 w)"
  then have "c \<in> (\<lambda>i. hexdigit (unat (drop_bit (4 * i) w AND 0xF))) ` set [7, 6, 5, 4, 3, 2, 1, 0 :: nat]"
    unfolding hex32_def set_map .
  then obtain i where "c = hexdigit (unat (drop_bit (4 * i) w AND 0xF))"
    by (rule imageE)
  then show "c \<in> set ''0123456789abcdef''"
    using hexdigit_hex [OF unat_nibble] by blast
qed

lemma length_hexdigest: "length (hexdigest hs) = 64"
  by (cases hs rule: hexdigest.cases) (simp add: length_hex32)

lemma set_hexdigest: "set (hexdigest hs) \<subseteq> set ''0123456789abcdef''"
proof -
  obtain a b c d e f g h where hs: "hs = (a, b, c, d, e, f, g, h)"
    by (cases hs rule: hexdigest.cases)
  have "set (hexdigest hs) = (\<Union>w \<in> {a, b, c, d, e, f, g, h}. set (hex32 w))"
    unfolding hs by auto
  also have "\<dots> \<subseteq> set ''0123456789abcdef''"
    using set_hex32 by blast
  finally show ?thesis .
qed

lemma create_session_id_hex:
  "length (create_session_id login timestamp) = 64
   \<and> set (create_session_id login timestamp) \<subseteq> set ''0123456789abcdef''"
  using set_hexdigest [of "sha256 (encode (login @ ''_'' @ timestamp))"]
  by (simp add: create_session_id_def sha256_hexdigest_def length_hexdigest)

lemma create_session_id_not_Nil: "create_session_id login timestamp \<noteq> []"
  using create_session_id_hex [of login timestamp] by auto

lemma SessionID_new_first:
  "SessionID_new login timestamp None =
     (create_session_id login timestamp,
      Some \<lparr>sid_value = Some (create_session_id login timestamp)\<rparr>)"
  by (simp add: SessionID_new_def SessionID_get_def Let_def)

lemma SessionID_new_cached:
  "v \<noteq> [] \<Longrightarrow>
     SessionID_new login timestamp (Some \<lparr>sid_value = Some v\<rparr>) = (v, Some \<lparr>sid_value = Some v\<rparr>)"
  by (simp add: SessionID_new_def SessionID_get_def Let_def)

text \<open>
  C4. The first evaluation of \<^verbatim>\<open>SessionID()\<close> in a process computes the SHA-256 digest of
  \<^verbatim>\<open>login_timestamp\<close>, a string of 64 hexadecimal characters, and stores it; a second
  evaluation returns the same string and leaves the state as it is, whatever user name
  and clock it would see; once a non-empty value is stored, every evaluation returns it.
  The raw constructor \<^verbatim>\<open>create_session_id\<close> returns the digest of the user name and of the
  clock reading of its own call, also 64 hexadecimal characters, and depends on nothing
  else: called with the user and the clock reading of the first access, it returns the
  cached identifier again and not a different one.
\<close>

theorem session_id_computed_once:
  "(let r1 = SessionID_new login t1 None;
        r2 = SessionID_new login' t2 (snd r1)
    in fst r1 = sha256_hexdigest (login @ ''_'' @ t1)
     \<and> length (fst r1) = 64
     \<and> set (fst r1) \<subseteq> set ''0123456789abcdef''
     \<and> snd r1 = Some \<lparr>sid_value = Some (fst r1)\<rparr>
     \<and> r2 = r1)
   \<and> (v \<noteq> [] \<longrightarrow>
        SessionID_new login t1 (Some \<lparr>sid_value = Some v\<rparr>) = (v, Some \<lparr>sid_value = Some v\<rparr>))
   \<and> create_session_id login t1 = sha256_hexdigest (login @ ''_'' @ t1)
   \<and> length (create_session_id login t1) = 64
   \<and> set (create_session_id login t1) \<subseteq> set ''0123456789abcdef''
   \<and> create_session_id login t1 = fst (SessionID_new login t1 None)"
  using create_session_id_hex [of login t1] create_session_id_not_Nil [of login t1]
  by (simp add: SessionID_new_first SessionID_new_cached Let_def)
     (simp add: create_session_id_def)

theorem session_id_computed_once_witness:
  "SessionID_new ''bob'' ''2024-05-01T12:00:07.500000''
      (snd (SessionID_new ''alice'' ''2024-05-01T12:00:00.000001'' None))
    = SessionID_new ''alice'' ''2024-05-01T12:00:00.000001'' None
   \<and> SessionID_new ''alice'' ''2024-05-01T12:00:00.000001'' None
    = (sha256_hexdigest ''alice_2024-05-01T12:00:00.000001'',
       Some \<lparr>sid_value = Some (sha256_hexdigest ''alice_2024-05-01T12:00:00.000001'')\<rparr>)
   \<and> length (sha256_hexdigest ''alice_2024-05-01T12:00:00.000001'') = 64
   \<and> SessionID_new ''bob'' ''2024-05-01T12:00:07.500000'' (Some \<lparr>sid_value = Some ''0f''\<rparr>)
    = (''0f'', Some \<lparr>sid_value = Some ''0f''\<rparr>)
   \<and> create_session_id ''alice'' ''2024-05-01T12:00:00.000001''
    = fst (SessionID_new ''alice'' ''2024-05-01T12:00:00.000001'' None)"
proof -
  let ?r = "SessionID_new ''alice'' ''2024-05-01T12:00:00.000001'' None"
  note t = session_id_computed_once [where login = "''alice''" and login' = "''bob''"
      and ?t1.0 = "''2024-05-01T12:00:00.000001''" and ?t2.0 = "''2024-05-01T12:00:07.500000''"
      and v = "''0f''", unfolded Let_def]
  have a: "SessionID_new ''bob'' ''2024-05-01T12:00:07.500000'' (snd ?r) = ?r"
    using t by blast
  have b: "fst ?r = sha256_hexdigest (''alice'' @ ''_'' @ ''2024-05-01T12:00:00.000001'')"
    and c: "snd ?r = Some \<lparr>sid_value = Some (fst ?r)\<rparr>"
    and d: "length (fst ?r) = 64"
    and g: "create_session_id ''alice'' ''2024-05-01T12:00:00.000001'' = fst ?r"
    using t by blast+
  have e: "?r = (sha256_hexdigest ''alice_2024-05-01T12:00:00.000001'',
       Some \<lparr>sid_value = Some (sha256_hexdigest ''alice_2024-05-01T12:00:00.000001'')\<rparr>)"
    using b c by (cases ?r) simp
  have f: "SessionID_new ''bob'' ''2024-05-01T12:00:07.500000'' (Some \<lparr>sid_value = Some ''0f''\<rparr>)
    = (''0f'', Some \<lparr>sid_value = Some ''0f''\<rparr>)"
    using session_id_computed_once [where login = "''bob''" and login' = "''bob''"
      and ?t1.0 = "''2024-05-01T12:00:07.500000''" and ?t2.0 = "''2024-05-01T12:00:07.500000''"
      and v = "''0f''"]
    by simp
  from a e d b f g show ?thesis by simp
qed

section \<open>Facts about the dictionary operations\<close>

lemma telemetry_data_no_extra:
  "telemetry_data user fn args kwargs sid [] =
     [(''name'', PyStr user), (''function'', PyStr fn), (''args'', args), (''kwargs'', kwargs),
      (''session_id'', PyStr sid)]"
  by (simp add: telemetry_data_def)

lemma map_of_foldl_update:
  "map_of (foldl (\<lambda>d (k, v). AList.update k v d) base extra) =
     map_of base ++ map_of (rev extra)"
proof (induction extra arbitrary: base)
  case Nil
  then show ?case by simp
next
  case (Cons kv extra)
  obtain k v where kv: "kv = (k, v)" by (cases kv)
  show ?case
    using Cons.IH [of "AList.update k v base"] kv
    by (simp add: AList.update_conv' map_add_upd_left fun_eq_iff map_add_def split: option.splits)
qed

lemma pop_each_ok:
  "distinct fs \<Longrightarrow> set fs \<subseteq> set (dict_keys d) \<Longrightarrow>
     pop_each fs d = Inr (filter (\<lambda>kv. fst kv \<notin> set fs) d)"
proof (induction fs arbitrary: d)
  case Nil
  then show ?case by simp
next
  case (Cons f fs)
  have keys: "set (dict_keys (AList.delete f d)) = set (dict_keys d) - {f}"
    by (auto simp: dict_keys_def AList.delete_eq)
  from Cons.prems have "set fs \<subseteq> set (dict_keys (AList.delete f d))"
    using keys by auto
  with Cons.IH [of "AList.delete f d"] Cons.prems
  have "pop_each fs (AList.delete f d) = Inr (filter (\<lambda>kv. fst kv \<notin> set fs) (AList.delete f d))"
    by simp
  moreover have "filter (\<lambda>kv. fst kv \<notin> set fs) (AList.delete f d) =
       filter (\<lambda>kv. fst kv \<notin> set (f # fs)) d"
    by (induction d) (auto simp: AList.delete_eq)
  ultimately show ?case using Cons.prems by simp
qed

lemma pop_each_first_absent:
  "distinct pre \<Longrightarrow> set pre \<subseteq> set (dict_keys d) \<Longrightarrow> f \<notin> set (dict_keys d) - set pre \<Longrightarrow>
     pop_each (pre @ f # post) d = Inl (KeyError (MissingField f))"
proof (induction pre arbitrary: d)
  case Nil
  then show ?case by simp
next
  case (Cons p pre)
  have keys: "set (dict_keys (AList.delete p d)) = set (dict_keys d) - {p}"
    by (auto simp: dict_keys_def AList.delete_eq)
  from Cons.prems keys have "set pre \<subseteq> set (dict_keys (AList.delete p d))"
    and "f \<notin> set (dict_keys (AList.delete p d)) - set pre" and "distinct pre"
    by auto
  with Cons.IH [of "AList.delete p d"] Cons.prems show ?case by simp
qed

lemma pop_each_result:
  "pop_each fs d = Inl e \<Longrightarrow> \<exists>f \<in> set fs. e = KeyError (MissingField f)"
  by (induction fs arbitrary: d) (auto split: if_splits)

lemma pop_each_Inr_iff:
  "(\<exists>d'. pop_each fs d = Inr d') \<longleftrightarrow> distinct fs \<and> set fs \<subseteq> set (dict_keys d)"
proof (induction fs arbitrary: d)
  case Nil
  then show ?case by simp
next
  case (Cons f fs)
  have keys: "set (dict_keys (AList.delete f d)) = set (dict_keys d) - {f}"
    by (auto simp: dict_keys_def AList.delete_eq)
  show ?case using Cons.IH [of "AList.delete f d"] keys by auto
qed


lemma map_of_filter_keys:
  "map_of (filter (\<lambda>kv. fst kv \<notin> S) d) k = (if k \<in> S then None else map_of d k)"
  by (induction d) auto

lemma dict_get_update_same: "dict_get (AList.update k v al) k dflt = v"
  by (simp add: dict_get_def AList.update_conv')

lemma str_keyed_Some_iff:
  "(\<exists>d. str_keyed kvs = Some d) \<longleftrightarrow> (\<forall>k \<in> set (map fst kvs). \<exists>s. k = PyStr s)"
proof (induction kvs rule: str_keyed.induct)
  case 1
  then show ?case by simp
next
  case (2 k v kvs)
  then show ?case by auto
qed auto

lemma map_of_rev_distinct: "distinct (map fst xs) \<Longrightarrow> map_of (rev xs) = map_of xs"
proof (induction xs)
  case Nil
  then show ?case by simp
next
  case (Cons x xs)
  obtain k v where x: "x = (k, v)" by (cases x)
  from Cons.prems have "map_of xs k = None"
    by (simp add: map_of_eq_None_iff x)
  then show ?case
    using Cons by (auto simp: fun_eq_iff map_add_def x split: option.splits)
qed

lemma create_telemetry_record_unfold:
  "create_telemetry_record user timestamp service fn args kwargs h ss =
     (case pop_each (dict_get (pop_fields h) service [])
             (telemetry_data user fn args kwargs (fst (SessionID_new user timestamp ss))
                (dict_get (extra_fields h) service [])) of
        Inl e \<Rightarrow> (Inl e, h, snd (SessionID_new user timestamp ss))
      | Inr d \<Rightarrow> (Inr d, h\<lparr>last_record := Some d\<rparr>, snd (SessionID_new user timestamp ss)))"
  by (cases "SessionID_new user timestamp ss")
     (simp add: create_telemetry_record_def split: sum.splits)

lemma record_overlay_wins:
  "distinct (dict_keys (dict_get (extra_fields h) service [])) \<longrightarrow>
   fst (create_telemetry_record user timestamp service fn args kwargs h ss) = Inr d \<longrightarrow>
     map_of d k =
       (if k \<in> set (dict_get (pop_fields h) service []) then None
        else case map_of (dict_get (extra_fields h) service []) k of
               Some v \<Rightarrow> Some v
             | None \<Rightarrow> map_of [(''name'', PyStr user), (''function'', PyStr fn), (''args'', args),
                                (''kwargs'', kwargs),
                                (''session_id'', PyStr (fst (SessionID_new user timestamp ss)))] k)"
proof (intro impI)
  let ?fs = "dict_get (pop_fields h) service []"
  let ?extra = "dict_get (extra_fields h) service []"
  let ?sid = "fst (SessionID_new user timestamp ss)"
  let ?base = "[(''name'', PyStr user), (''function'', PyStr fn), (''args'', args),
                (''kwargs'', kwargs), (''session_id'', PyStr ?sid)]"
  let ?m = "telemetry_data user fn args kwargs ?sid ?extra"
  assume dist: "distinct (dict_keys ?extra)"
  assume ok: "fst (create_telemetry_record user timestamp service fn args kwargs h ss) = Inr d"
  then have pop: "pop_each ?fs ?m = Inr d"
    by (auto simp: create_telemetry_record_unfold split: sum.splits)
  then have "distinct ?fs \<and> set ?fs \<subseteq> set (dict_keys ?m)"
    using pop_each_Inr_iff [of ?fs ?m] by blast
  with pop have d: "d = filter (\<lambda>kv. fst kv \<notin> set ?fs) ?m"
    using pop_each_ok [of ?fs ?m] by simp
  have rev: "map_of (rev ?extra) = map_of ?extra"
    using dist by (simp add: dict_keys_def map_of_rev_distinct)
  have "map_of ?m = map_of ?base ++ map_of ?extra"
    unfolding telemetry_data_def map_of_foldl_update rev ..
  then show "map_of d k =
       (if k \<in> set ?fs then None
        else case map_of ?extra k of Some v \<Rightarrow> Some v | None \<Rightarrow> map_of ?base k)"
    unfolding d map_of_filter_keys by (simp add: map_add_def split: option.splits)
qed

lemma str_keyed_str_dict: "str_keyed (map (\<lambda>(k, v). (PyStr k, v)) d) = Some d"
  by (induction d) auto

lemma validate_str_dict: "validate_dict_str_any (str_dict d) = Inr d"
  by (simp add: validate_dict_str_any_def str_dict_def str_keyed_str_dict)

lemma drawn_strs_map: "drawn_strs (map PyStr fs) = Inr fs"
  by (induction fs) auto

lemma validate_dict_reject:
  "\<not> (\<exists>kvs. flds = PyDict kvs \<and> (\<forall>k \<in> set (map fst kvs). \<exists>s. k = PyStr s)) \<Longrightarrow>
     validate_dict_str_any flds = Inl ValidationError"
proof (cases flds)
  case (PyDict kvs)
  assume "\<not> (\<exists>kvs. flds = PyDict kvs \<and> (\<forall>k \<in> set (map fst kvs). \<exists>s. k = PyStr s))"
  with PyDict have "\<not> (\<forall>k \<in> set (map fst kvs). \<exists>s. k = PyStr s)" by blast
  then have "str_keyed kvs = None"
    using str_keyed_Some_iff [of kvs] by (cases "str_keyed kvs") auto
  with PyDict show ?thesis by (simp add: validate_dict_str_any_def)
qed (simp_all add: validate_dict_str_any_def)

lemma add_extra_fields_state:
  "snd (add_extra_fields service flds h) = h \<or>
   (\<exists>d. snd (add_extra_fields service flds h) = h\<lparr>extra_fields := AList.update service d (extra_fields h)\<rparr>)"
  by (auto simp: add_extra_fields_def split: sum.splits)

lemma add_extra_fields_twice:
  "fst (add_extra_fields service f2 h) = Inr () \<Longrightarrow>
     add_extra_fields service f2 (snd (add_extra_fields service f1 h)) = add_extra_fields service f2 h"
  using add_extra_fields_state [of service f1 h]
  by (auto simp: add_extra_fields_def split: sum.splits)

lemma remove_fields_state:
  "snd (remove_fields service flds h) = h \<or>
   (\<exists>fs. snd (remove_fields service flds h) = h\<lparr>pop_fields := AList.update service fs (pop_fields h)\<rparr>)"
  by (auto simp: remove_fields_def remove_fields_body_def Let_def split: sum.splits)

lemma remove_fields_twice:
  "fst (remove_fields service f2 h) = Inr () \<Longrightarrow>
     remove_fields service f2 (snd (remove_fields service f1 h)) = remove_fields service f2 h"
  using remove_fields_state [of service f1 h]
  by (auto simp: remove_fields_def remove_fields_body_def Let_def split: sum.splits)

lemma remove_fields_str_list:
  "remove_fields service (str_list fs) h =
     (Inr (), h\<lparr>pop_fields := AList.update service fs (pop_fields h)\<rparr>)"
  by (simp add: remove_fields_def remove_fields_body_def validate_iterable_def list_of_fields_def
      str_list_def drawn_strs_map)

section \<open>Building a record\<close>

text \<open>
  C1. With \<^verbatim>\<open>endpoints = {"payu": "/payu/update"}\<close>, after
  \<^verbatim>\<open>add_extra_fields("payu", {"model": "X", "n": 2})\<close> and
  \<^verbatim>\<open>remove_fields("payu", ["session_id", "name"])\<close>, the call
  \<^verbatim>\<open>_create_telemetry_record("payu", "_test", [], {})\<close> returns exactly
  \<^verbatim>\<open>{"function": "_test", "args": [], "kwargs": {}, "model": "X", "n": 2}\<close>, whatever the
  user name, the clock, the session state and the rest of the handler state are, and
  stores it as the last record. In general, a record that is built holds no suppressed
  key, holds every extra field of the service with the extra field's value, also where
  the key is one of the five base keys, and holds the base value for every other base
  key.
\<close>

theorem overlay_merge_example:
  "(endpoints h = [(''payu'', ''/payu/update'')] \<longrightarrow>
     (let h1 = h\<lparr>extra_fields :=
                   AList.update ''payu'' [(''model'', PyStr ''X''), (''n'', PyInt 2)] (extra_fields h)\<rparr>;
          h2 = h1\<lparr>pop_fields := AList.update ''payu'' [''session_id'', ''name''] (pop_fields h1)\<rparr>;
          r = [(''function'', PyStr ''_test''), (''args'', PyList []), (''kwargs'', PyDict []),
               (''model'', PyStr ''X''), (''n'', PyInt 2)]
      in add_extra_fields ''payu'' (PyDict [(PyStr ''model'', PyStr ''X''), (PyStr ''n'', PyInt 2)]) h
           = (Inr (), h1)
       \<and> remove_fields ''payu'' (PyList [PyStr ''session_id'', PyStr ''name'']) h1 = (Inr (), h2)
       \<and> create_telemetry_record user timestamp ''payu'' ''_test'' (PyList []) (PyDict []) h2 ss
           = (Inr r, h2\<lparr>last_record := Some r\<rparr>, snd (SessionID_new user timestamp ss))))
   \<and> (distinct (dict_keys (dict_get (extra_fields g) service [])) \<longrightarrow>
      fst (create_telemetry_record user timestamp service fn args kwargs g ss) = Inr d \<longrightarrow>
        map_of d k =
          (if k \<in> set (dict_get (pop_fields g) service []) then None
           else case map_of (dict_get (extra_fields g) service []) k of
                  Some v \<Rightarrow> Some v
                | None \<Rightarrow> map_of [(''name'', PyStr user), (''function'', PyStr fn),
                                   (''args'', args), (''kwargs'', kwargs),
                                   (''session_id'', PyStr (fst (SessionID_new user timestamp ss)))] k))"
  using record_overlay_wins [of g service user timestamp fn args kwargs ss d k]
  by (simp add: add_extra_fields_def remove_fields_def remove_fields_body_def
      validate_dict_str_any_def validate_iterable_def list_of_fields_def
      create_telemetry_record_unfold telemetry_data_def dict_get_update_same dict_keys_def)

theorem overlay_merge_example_witness:
  "create_telemetry_record ''alice'' ''2024-05-01T12:00:00.000001'' ''payu'' ''_test''
     (PyList []) (PyDict [])
     (snd (remove_fields ''payu'' (PyList [PyStr ''session_id'', PyStr ''name''])
        (snd (add_extra_fields ''payu''
           (PyDict [(PyStr ''model'', PyStr ''X''), (PyStr ''n'', PyInt 2)])
           (ApiHandler [(''payu'', ''/payu/update'')])))))
     None
   = (Inr [(''function'', PyStr ''_test''), (''args'', PyList []), (''kwargs'', PyDict []),
           (''model'', PyStr ''X''), (''n'', PyInt 2)],
      \<lparr> server_url = SERVER_URL,
        endpoints = [(''payu'', ''/payu/update'')],
        registries = [''payu''],
        extra_fields = [(''payu'', [(''model'', PyStr ''X''), (''n'', PyInt 2)])],
        pop_fields = [(''payu'', [''session_id'', ''name''])],
        last_record = Some [(''function'', PyStr ''_test''), (''args'', PyList []),
           (''kwargs'', PyDict []), (''model'', PyStr ''X''), (''n'', PyInt 2)] \<rparr>,
      Some \<lparr>sid_value = Some (create_session_id ''alice'' ''2024-05-01T12:00:00.000001'')\<rparr>)
   \<and> fst (create_telemetry_record ''alice'' ''2024-05-01T12:00:00.000001'' ''payu'' ''_test''
        (PyList []) (PyDict [])
        ((ApiHandler [(''payu'', ''/payu/update'')])
           \<lparr>extra_fields := [(''payu'', [(''function'', PyStr ''wrapped'')])],
            pop_fields := [(''payu'', [''name''])]\<rparr>)
        None)
     = Inr [(''function'', PyStr ''wrapped''), (''args'', PyList []), (''kwargs'', PyDict []),
            (''session_id'', PyStr (create_session_id ''alice'' ''2024-05-01T12:00:00.000001''))]
   \<and> map_of [(''function'', PyStr ''wrapped''), (''args'', PyList []), (''kwargs'', PyDict []),
            (''session_id'', PyStr (create_session_id ''alice'' ''2024-05-01T12:00:00.000001''))] ''function'' = Some (PyStr ''wrapped'')"
proof -
  have a: "create_telemetry_record ''alice'' ''2024-05-01T12:00:00.000001'' ''payu'' ''_test''
     (PyList []) (PyDict [])
     (snd (remove_fields ''payu'' (PyList [PyStr ''session_id'', PyStr ''name''])
        (snd (add_extra_fields ''payu''
           (PyDict [(PyStr ''model'', PyStr ''X''), (PyStr ''n'', PyInt 2)])
           (ApiHandler [(''payu'', ''/payu/update'')])))))
     None
   = (Inr [(''function'', PyStr ''_test''), (''args'', PyList []), (''kwargs'', PyDict []),
           (''model'', PyStr ''X''), (''n'', PyInt 2)],
      \<lparr> server_url = SERVER_URL,
        endpoints = [(''payu'', ''/payu/update'')],
        registries = [''payu''],
        extra_fields = [(''payu'', [(''model'', PyStr ''X''), (''n'', PyInt 2)])],
        pop_fields = [(''payu'', [''session_id'', ''name''])],
        last_record = Some [(''function'', PyStr ''_test''), (''args'', PyList []),
           (''kwargs'', PyDict []), (''model'', PyStr ''X''), (''n'', PyInt 2)] \<rparr>,
      Some \<lparr>sid_value = Some (create_session_id ''alice'' ''2024-05-01T12:00:00.000001'')\<rparr>)"
    using overlay_merge_example
      [where h = "ApiHandler [(''payu'', ''/payu/update'')]" and user = "''alice''"
         and timestamp = "''2024-05-01T12:00:00.000001''" and ss = None
         and g = "ApiHandler [(''payu'', ''/payu/update'')]" and service = "''payu''"
         and fn = "''_test''" and args = "PyList []" and kwargs = "PyDict []"
         and k = "''function''" and d = "[]"]
    by (simp add: ApiHandler_def dict_keys_def Let_def SessionID_new_first)
  let ?g = "(ApiHandler [(''payu'', ''/payu/update'')])
           \<lparr>extra_fields := [(''payu'', [(''function'', PyStr ''wrapped'')])],
            pop_fields := [(''payu'', [''name''])]\<rparr>"
  let ?d = "[(''function'', PyStr ''wrapped''), (''args'', PyList []), (''kwargs'', PyDict []),
            (''session_id'', PyStr (create_session_id ''alice'' ''2024-05-01T12:00:00.000001''))]"
  have b: "fst (create_telemetry_record ''alice'' ''2024-05-01T12:00:00.000001'' ''payu'' ''_test''
        (PyList []) (PyDict []) ?g None) = Inr ?d"
    by (simp add: create_telemetry_record_unfold SessionID_new_first telemetry_data_def
        ApiHandler_def dict_get_def dict_keys_def)
  have c: "map_of ?d ''function'' = Some (PyStr ''wrapped'')"
    using overlay_merge_example
      [where h = "ApiHandler [(''payu'', ''/payu/update'')]" and user = "''alice''"
         and timestamp = "''2024-05-01T12:00:00.000001''"
         and ss = None
         and g = ?g and service = "''payu''"
         and fn = "''_test''" and args = "PyList []" and kwargs = "PyDict []"
         and k = "''function''" and d = ?d, THEN conjunct2] b
    by (simp add: ApiHandler_def dict_get_def dict_keys_def)
  from a b c show ?thesis by simp
qed

text \<open>
  C10. Building a record does not depend on the service being known: for a service name
  with no entry in the extra-fields map and none in the suppression map (whatever the
  endpoint map holds), \<^verbatim>\<open>_create_telemetry_record\<close> returns the five base fields, with
  nothing merged and nothing removed, and stores them as the last record.
\<close>

theorem build_record_without_entries:
  "map_of (extra_fields h) service = None \<and> map_of (pop_fields h) service = None \<longrightarrow>
     create_telemetry_record user timestamp service fn args kwargs h ss =
       (let r = [(''name'', PyStr user), (''function'', PyStr fn), (''args'', args),
                 (''kwargs'', kwargs),
                 (''session_id'', PyStr (fst (SessionID_new user timestamp ss)))]
        in (Inr r, h\<lparr>last_record := Some r\<rparr>, snd (SessionID_new user timestamp ss)))"
  by (simp add: create_telemetry_record_unfold dict_get_def telemetry_data_no_extra Let_def)

theorem build_record_without_entries_witness:
  "''nope'' \<notin> set (dict_keys (endpoints (ApiHandler [(''payu'', ''/payu/update'')])))
   \<and> create_telemetry_record ''alice'' ''2024-05-01T12:00:00.000001'' ''nope'' ''_test''
        (PyList [PyInt 1]) (PyDict [])
        (ApiHandler [(''payu'', ''/payu/update'')]) None
     = (Inr [(''name'', PyStr ''alice''), (''function'', PyStr ''_test''), (''args'', PyList [PyInt 1]),
             (''kwargs'', PyDict []), (''session_id'', PyStr (create_session_id ''alice'' ''2024-05-01T12:00:00.000001''))],
        (ApiHandler [(''payu'', ''/payu/update'')])
          \<lparr>last_record := Some [(''name'', PyStr ''alice''), (''function'', PyStr ''_test''),
             (''args'', PyList [PyInt 1]), (''kwargs'', PyDict []), (''session_id'', PyStr (create_session_id ''alice'' ''2024-05-01T12:00:00.000001''))]\<rparr>,
        Some \<lparr>sid_value = Some (create_session_id ''alice'' ''2024-05-01T12:00:00.000001'')\<rparr>)"
  using build_record_without_entries
    [of "ApiHandler [(''payu'', ''/payu/update'')]" "''nope''" "''alice''"
        "''2024-05-01T12:00:00.000001''" "''_test''" "PyList [PyInt 1]" "PyDict []"
        None]
  by (simp add: ApiHandler_def dict_keys_def Let_def SessionID_new_first)

text \<open>
  C7. Let \<open>fs\<close> be the suppression list of the service and \<open>d\<close> the record before any
  removal. A field of \<open>fs\<close> is absent at its removal time when it is not a key of \<open>d\<close>
  or stands earlier in \<open>fs\<close> already. If the fields before the first such field \<open>f\<close>
  are removable, the call raises \<^verbatim>\<open>KeyError(f)\<close>; whenever some field is absent at its
  removal time the call raises \<^verbatim>\<open>KeyError\<close> for a field of the list, and the handler
  state is as before. When every field is present at its removal time, the call returns
  \<open>d\<close> without the keys of \<open>fs\<close>.
\<close>

theorem suppressed_field_absent_raises:
  "(let fs = dict_get (pop_fields h) service [];
        d = telemetry_data user fn args kwargs (fst (SessionID_new user timestamp ss))
              (dict_get (extra_fields h) service []);
        ss1 = snd (SessionID_new user timestamp ss)
    in (\<forall>pre f post.
          fs = pre @ f # post \<and> distinct pre \<and> set pre \<subseteq> set (dict_keys d)
            \<and> f \<notin> set (dict_keys d) - set pre \<longrightarrow>
          create_telemetry_record user timestamp service fn args kwargs h ss
            = (Inl (KeyError (MissingField f)), h, ss1))
     \<and> ((\<exists>pre f post. fs = pre @ f # post \<and> f \<notin> set (dict_keys d) - set pre) \<longrightarrow>
          (\<exists>f \<in> set fs.
             create_telemetry_record user timestamp service fn args kwargs h ss
               = (Inl (KeyError (MissingField f)), h, ss1)))
     \<and> ((\<forall>pre f post. fs = pre @ f # post \<longrightarrow> f \<in> set (dict_keys d) - set pre) \<longrightarrow>
          create_telemetry_record user timestamp service fn args kwargs h ss =
            (Inr (filter (\<lambda>kv. fst kv \<notin> set fs) d),
             h\<lparr>last_record := Some (filter (\<lambda>kv. fst kv \<notin> set fs) d)\<rparr>, ss1)))"
proof -
  define fs where "fs = dict_get (pop_fields h) service []"
  define d where "d = telemetry_data user fn args kwargs (fst (SessionID_new user timestamp ss))
      (dict_get (extra_fields h) service [])"
  define ss1 where "ss1 = snd (SessionID_new user timestamp ss)"
  have run: "create_telemetry_record user timestamp service fn args kwargs h ss =
      (case pop_each fs d of
         Inl e \<Rightarrow> (Inl e, h, ss1)
       | Inr d' \<Rightarrow> (Inr d', h\<lparr>last_record := Some d'\<rparr>, ss1))"
    unfolding fs_def d_def ss1_def by (rule create_telemetry_record_unfold)
  have first: "create_telemetry_record user timestamp service fn args kwargs h ss
      = (Inl (KeyError (MissingField f)), h, ss1)"
    if "fs = pre @ f # post" "distinct pre" "set pre \<subseteq> set (dict_keys d)"
       "f \<notin> set (dict_keys d) - set pre" for pre f post
    using that pop_each_first_absent [of pre d f post] by (simp add: run)
  have absent_iff: "(\<exists>pre f post. fs = pre @ f # post \<and> f \<notin> set (dict_keys d) - set pre)
      \<longleftrightarrow> \<not> (distinct fs \<and> set fs \<subseteq> set (dict_keys d))"
  proof
    assume "\<exists>pre f post. fs = pre @ f # post \<and> f \<notin> set (dict_keys d) - set pre"
    then obtain pre f post where "fs = pre @ f # post" "f \<notin> set (dict_keys d) - set pre"
      by blast
    then show "\<not> (distinct fs \<and> set fs \<subseteq> set (dict_keys d))" by auto
  next
    assume "\<not> (distinct fs \<and> set fs \<subseteq> set (dict_keys d))"
    then consider "\<not> distinct fs" | "\<not> set fs \<subseteq> set (dict_keys d)" by blast
    then show "\<exists>pre f post. fs = pre @ f # post \<and> f \<notin> set (dict_keys d) - set pre"
    proof cases
      case 1
      then obtain xs ys zs y where "fs = xs @ [y] @ ys @ [y] @ zs"
        using not_distinct_decomp by blast
      then have "fs = (xs @ [y] @ ys) @ y # zs \<and> y \<notin> set (dict_keys d) - set (xs @ [y] @ ys)"
        by simp
      then show ?thesis by blast
    next
      case 2
      then obtain f where "f \<in> set fs" "f \<notin> set (dict_keys d)" by blast
      then obtain pre post where "fs = pre @ f # post" by (meson split_list)
      with \<open>f \<notin> set (dict_keys d)\<close> show ?thesis by blast
    qed
  qed
  have some: "\<exists>f \<in> set fs.
      create_telemetry_record user timestamp service fn args kwargs h ss
        = (Inl (KeyError (MissingField f)), h, ss1)"
    if "\<exists>pre f post. fs = pre @ f # post \<and> f \<notin> set (dict_keys d) - set pre"
  proof -
    from that absent_iff have "\<not> (\<exists>d'. pop_each fs d = Inr d')"
      using pop_each_Inr_iff [of fs d] by blast
    then obtain e where e: "pop_each fs d = Inl e" by (cases "pop_each fs d") auto
    then obtain f where "f \<in> set fs" "e = KeyError (MissingField f)"
      using pop_each_result by blast
    with e show ?thesis by (auto simp: run)
  qed
  have ok: "create_telemetry_record user timestamp service fn args kwargs h ss =
            (Inr (filter (\<lambda>kv. fst kv \<notin> set fs) d),
             h\<lparr>last_record := Some (filter (\<lambda>kv. fst kv \<notin> set fs) d)\<rparr>, ss1)"
    if "\<forall>pre f post. fs = pre @ f # post \<longrightarrow> f \<in> set (dict_keys d) - set pre"
  proof -
    from that absent_iff have "distinct fs \<and> set fs \<subseteq> set (dict_keys d)" by blast
    then show ?thesis using pop_each_ok [of fs d] by (simp add: run)
  qed
  from first some ok show ?thesis
    unfolding Let_def fs_def [symmetric] d_def [symmetric] ss1_def [symmetric] by blast
qed

theorem suppressed_field_absent_raises_witness:
  "create_telemetry_record ''alice'' ''2024-05-01T12:00:00.000001'' ''payu'' ''_test''
      (PyList []) (PyDict [])
      ((ApiHandler [(''payu'', ''/payu/update'')])\<lparr>pop_fields := [(''payu'', [''session_id'', ''model''])]\<rparr>)
      None
     = (Inl (KeyError (MissingField ''model'')),
        (ApiHandler [(''payu'', ''/payu/update'')])\<lparr>pop_fields := [(''payu'', [''session_id'', ''model''])]\<rparr>,
        Some \<lparr>sid_value = Some (create_session_id ''alice'' ''2024-05-01T12:00:00.000001'')\<rparr>)
   \<and> create_telemetry_record ''alice'' ''2024-05-01T12:00:00.000001'' ''payu'' ''_test''
      (PyList []) (PyDict [])
      ((ApiHandler [(''payu'', ''/payu/update'')])\<lparr>pop_fields := [(''payu'', [''name'', ''name''])]\<rparr>)
      None
     = (Inl (KeyError (MissingField ''name'')),
        (ApiHandler [(''payu'', ''/payu/update'')])\<lparr>pop_fields := [(''payu'', [''name'', ''name''])]\<rparr>,
        Some \<lparr>sid_value = Some (create_session_id ''alice'' ''2024-05-01T12:00:00.000001'')\<rparr>)
   \<and> fst (create_telemetry_record ''alice'' ''2024-05-01T12:00:00.000001'' ''payu'' ''_test''
      (PyList []) (PyDict [])
      ((ApiHandler [(''payu'', ''/payu/update'')])\<lparr>pop_fields := [(''payu'', [''session_id'', ''name''])]\<rparr>)
      None)
     = Inr [(''function'', PyStr ''_test''), (''args'', PyList []), (''kwargs'', PyDict [])]"
proof -
  let ?h = "ApiHandler [(''payu'', ''/payu/update'')]"
  let ?ss = "None :: session_id option"
  let ?ss1 = "Some \<lparr>sid_value = Some (create_session_id ''alice'' ''2024-05-01T12:00:00.000001'')\<rparr>"
  let ?d = "telemetry_data ''alice'' ''_test'' (PyList []) (PyDict []) (create_session_id ''alice'' ''2024-05-01T12:00:00.000001'') []"
  have sid: "SessionID_new ''alice'' ''2024-05-01T12:00:00.000001'' ?ss = (create_session_id ''alice'' ''2024-05-01T12:00:00.000001'', ?ss1)"
    by (simp add: SessionID_new_first)
  have keys: "set (dict_keys ?d) = {''name'', ''function'', ''args'', ''kwargs'', ''session_id''}"
    by (simp add: telemetry_data_no_extra dict_keys_def)
  have extra: "dict_get (extra_fields (?h\<lparr>pop_fields := p\<rparr>)) ''payu'' [] = []" for p
    by (simp add: ApiHandler_def dict_get_def dict_keys_def)
  have pops: "dict_get (pop_fields (?h\<lparr>pop_fields := [(''payu'', fs)]\<rparr>)) ''payu'' [] = fs" for fs
    by (simp add: dict_get_def)
  note t = suppressed_field_absent_raises [where user = "''alice''" and service = "''payu''"
      and timestamp = "''2024-05-01T12:00:00.000001''" and ss = ?ss
      and fn = "''_test''" and args = "PyList []" and kwargs = "PyDict []",
      unfolded Let_def extra sid fst_conv snd_conv]
  have a: "create_telemetry_record ''alice'' ''2024-05-01T12:00:00.000001'' ''payu'' ''_test''
      (PyList []) (PyDict []) (?h\<lparr>pop_fields := [(''payu'', [''session_id'', ''model''])]\<rparr>) ?ss
     = (Inl (KeyError (MissingField ''model'')),
        ?h\<lparr>pop_fields := [(''payu'', [''session_id'', ''model''])]\<rparr>, ?ss1)"
    using t [of "?h\<lparr>pop_fields := [(''payu'', [''session_id'', ''model''])]\<rparr>", unfolded extra pops,
        THEN conjunct1, rule_format, of "[''session_id'']" "''model''" "[]"] keys
    by simp
  have b: "create_telemetry_record ''alice'' ''2024-05-01T12:00:00.000001'' ''payu'' ''_test''
      (PyList []) (PyDict []) (?h\<lparr>pop_fields := [(''payu'', [''name'', ''name''])]\<rparr>) ?ss
     = (Inl (KeyError (MissingField ''name'')),
        ?h\<lparr>pop_fields := [(''payu'', [''name'', ''name''])]\<rparr>, ?ss1)"
    using t [of "?h\<lparr>pop_fields := [(''payu'', [''name'', ''name''])]\<rparr>", unfolded extra pops,
        THEN conjunct1, rule_format, of "[''name'']" "''name''" "[]"] keys
    by simp
  have "\<forall>pre f post. [''session_id'', ''name''] = pre @ f # post \<longrightarrow> f \<in> set (dict_keys ?d) - set pre"
    using keys by (auto simp: Cons_eq_append_conv)
  then have c: "fst (create_telemetry_record ''alice'' ''2024-05-01T12:00:00.000001'' ''payu'' ''_test''
      (PyList []) (PyDict []) (?h\<lparr>pop_fields := [(''payu'', [''session_id'', ''name''])]\<rparr>) ?ss)
     = Inr [(''function'', PyStr ''_test''), (''args'', PyList []), (''kwargs'', PyDict [])]"
    using t [of "?h\<lparr>pop_fields := [(''payu'', [''session_id'', ''name''])]\<rparr>", unfolded extra pops,
        THEN conjunct2, THEN conjunct2]
    by (simp add: telemetry_data_no_extra)
  from a b c show ?thesis by simp
qed

section \<open>Configuring a service\<close>

text \<open>
  C5. Both configuration calls replace what was configured before. For a known service,
  after \<^verbatim>\<open>add_extra_fields(service, d)\<close> the overlay of the service is \<open>d\<close>, whatever it
  was; after a second call with \<open>d'\<close> it is \<open>d'\<close>, the state is the one a single call with
  \<open>d'\<close> gives, and the overlays of the other services are as before. The same holds of
  \<^verbatim>\<open>remove_fields\<close> and the suppression list, for any service. A successful call gives the
  same result and the same state whether or not another call for the same service came
  first. In particular \<^verbatim>\<open>add_extra_fields(service, {})\<close> twice leaves the overlay of the
  service empty both times, and the second call changes nothing;
  \<^verbatim>\<open>remove_fields(service, ["a"])\<close> followed by \<^verbatim>\<open>remove_fields(service, ["b"])\<close> leaves the
  suppression list \<^verbatim>\<open>["b"]\<close>.
\<close>

theorem configuration_replaces:
  "(service \<in> set (dict_keys (endpoints h)) \<longrightarrow>
      (let h1 = snd (add_extra_fields service (str_dict d1) h);
           h2 = snd (add_extra_fields service (str_dict d2) h1)
       in add_extra_fields service (str_dict d1) h =
            (Inr (), h\<lparr>extra_fields := AList.update service d1 (extra_fields h)\<rparr>)
        \<and> map_of (extra_fields h1) service = Some d1
        \<and> add_extra_fields service (str_dict d2) h1 =
            (Inr (), h\<lparr>extra_fields := AList.update service d2 (extra_fields h)\<rparr>)
        \<and> map_of (extra_fields h2) service = Some d2
        \<and> (\<forall>s. s \<noteq> service \<longrightarrow> map_of (extra_fields h2) s = map_of (extra_fields h) s)))
   \<and> (let g1 = snd (remove_fields service (str_list fs1) h);
           g2 = snd (remove_fields service (str_list fs2) g1)
       in remove_fields service (str_list fs1) h =
            (Inr (), h\<lparr>pop_fields := AList.update service fs1 (pop_fields h)\<rparr>)
        \<and> map_of (pop_fields g1) service = Some fs1
        \<and> remove_fields service (str_list fs2) g1 =
            (Inr (), h\<lparr>pop_fields := AList.update service fs2 (pop_fields h)\<rparr>)
        \<and> map_of (pop_fields g2) service = Some fs2
        \<and> (\<forall>s. s \<noteq> service \<longrightarrow> map_of (pop_fields g2) s = map_of (pop_fields h) s))
   \<and> (fst (add_extra_fields service f2 h) = Inr () \<longrightarrow>
      add_extra_fields service f2 (snd (add_extra_fields service f1 h)) = add_extra_fields service f2 h)
   \<and> (fst (remove_fields service g2 h) = Inr () \<longrightarrow>
      remove_fields service g2 (snd (remove_fields service g1 h)) = remove_fields service g2 h)
   \<and> (service \<in> set (dict_keys (endpoints h)) \<longrightarrow>
        (let h1 = snd (add_extra_fields service (PyDict []) h);
             h2 = snd (add_extra_fields service (PyDict []) h1)
         in fst (add_extra_fields service (PyDict []) h) = Inr ()
          \<and> map_of (extra_fields h1) service = Some []
          \<and> fst (add_extra_fields service (PyDict []) h1) = Inr ()
          \<and> map_of (extra_fields h2) service = Some []
          \<and> h2 = h1))
   \<and> (let h1 = snd (remove_fields service (PyList [PyStr ''a'']) h);
           h2 = snd (remove_fields service (PyList [PyStr ''b'']) h1)
       in fst (remove_fields service (PyList [PyStr ''a'']) h) = Inr ()
        \<and> map_of (pop_fields h1) service = Some [''a'']
        \<and> fst (remove_fields service (PyList [PyStr ''b'']) h1) = Inr ()
        \<and> map_of (pop_fields h2) service = Some [''b''])"
proof -
  have r: "remove_fields service (PyList [PyStr s]) g =
      (Inr (), g\<lparr>pop_fields := AList.update service [s] (pop_fields g)\<rparr>)" for s g
    using remove_fields_str_list [of service "[s]" g] by (simp add: str_list_def)
  have a: "service \<in> set (dict_keys (endpoints g)) \<Longrightarrow> add_extra_fields service (PyDict []) g =
      (Inr (), g\<lparr>extra_fields := AList.update service [] (extra_fields g)\<rparr>)" for g
    by (simp add: add_extra_fields_def validate_dict_str_any_def)
  have s: "service \<in> set (dict_keys (endpoints g)) \<Longrightarrow> add_extra_fields service (str_dict d) g =
      (Inr (), g\<lparr>extra_fields := AList.update service d (extra_fields g)\<rparr>)" for g d
    by (simp add: add_extra_fields_def validate_str_dict)
  have new: "service \<in> set (dict_keys (endpoints h)) \<longrightarrow>
      (let h1 = snd (add_extra_fields service (str_dict d1) h);
           h2 = snd (add_extra_fields service (str_dict d2) h1)
       in add_extra_fields service (str_dict d1) h =
            (Inr (), h\<lparr>extra_fields := AList.update service d1 (extra_fields h)\<rparr>)
        \<and> map_of (extra_fields h1) service = Some d1
        \<and> add_extra_fields service (str_dict d2) h1 =
            (Inr (), h\<lparr>extra_fields := AList.update service d2 (extra_fields h)\<rparr>)
        \<and> map_of (extra_fields h2) service = Some d2
        \<and> (\<forall>s. s \<noteq> service \<longrightarrow> map_of (extra_fields h2) s = map_of (extra_fields h) s))"
    by (simp add: s Let_def AList.update_conv')
  have new': "(let g1 = snd (remove_fields service (str_list fs1) h);
           g2 = snd (remove_fields service (str_list fs2) g1)
       in remove_fields service (str_list fs1) h =
            (Inr (), h\<lparr>pop_fields := AList.update service fs1 (pop_fields h)\<rparr>)
        \<and> map_of (pop_fields g1) service = Some fs1
        \<and> remove_fields service (str_list fs2) g1 =
            (Inr (), h\<lparr>pop_fields := AList.update service fs2 (pop_fields h)\<rparr>)
        \<and> map_of (pop_fields g2) service = Some fs2
        \<and> (\<forall>s. s \<noteq> service \<longrightarrow> map_of (pop_fields g2) s = map_of (pop_fields h) s))"
    by (simp add: remove_fields_str_list Let_def AList.update_conv')
  have old: "(fst (add_extra_fields service f2 h) = Inr () \<longrightarrow>
      add_extra_fields service f2 (snd (add_extra_fields service f1 h)) = add_extra_fields service f2 h)
   \<and> (fst (remove_fields service g2 h) = Inr () \<longrightarrow>
      remove_fields service g2 (snd (remove_fields service g1 h)) = remove_fields service g2 h)
   \<and> (service \<in> set (dict_keys (endpoints h)) \<longrightarrow>
        (let h1 = snd (add_extra_fields service (PyDict []) h);
             h2 = snd (add_extra_fields service (PyDict []) h1)
         in fst (add_extra_fields service (PyDict []) h) = Inr ()
          \<and> map_of (extra_fields h1) service = Some []
          \<and> fst (add_extra_fields service (PyDict []) h1) = Inr ()
          \<and> map_of (extra_fields h2) service = Some []
          \<and> h2 = h1))
   \<and> (let h1 = snd (remove_fields service (PyList [PyStr ''a'']) h);
           h2 = snd (remove_fields service (PyList [PyStr ''b'']) h1)
       in fst (remove_fields service (PyList [PyStr ''a'']) h) = Inr ()
        \<and> map_of (pop_fields h1) service = Some [''a'']
        \<and> fst (remove_fields service (PyList [PyStr ''b'']) h1) = Inr ()
        \<and> map_of (pop_fields h2) service = Some [''b''])"
    by (simp add: add_extra_fields_twice remove_fields_twice r a Let_def AList.update_conv')
  from new new' old show ?thesis by blast
qed

theorem configuration_replaces_witness:
  "''payu'' \<in> set (dict_keys (endpoints (ApiHandler [(''payu'', ''/payu/update'')])))
   \<and> extra_fields (snd (add_extra_fields ''payu'' (PyDict [(PyStr ''model'', PyStr ''X'')])
        (ApiHandler [(''payu'', ''/payu/update'')])))
       = [(''payu'', [(''model'', PyStr ''X'')])]
   \<and> extra_fields (snd (add_extra_fields ''payu'' (PyDict [])
        (snd (add_extra_fields ''payu'' (PyDict [(PyStr ''model'', PyStr ''X'')])
           (ApiHandler [(''payu'', ''/payu/update'')])))))
       = [(''payu'', [])]
   \<and> extra_fields (snd (add_extra_fields ''payu'' (PyDict [(PyStr ''n'', PyInt 2)])
        (snd (add_extra_fields ''payu'' (PyDict [(PyStr ''model'', PyStr ''X'')])
           (ApiHandler [(''payu'', ''/payu/update'')])))))
       = [(''payu'', [(''n'', PyInt 2)])]
   \<and> pop_fields (snd (remove_fields ''payu'' (PyList [PyStr ''b''])
        (snd (remove_fields ''payu'' (PyList [PyStr ''a'']) (ApiHandler [(''payu'', ''/payu/update'')])))))
       = [(''payu'', [''b''])]"
proof -
  let ?h = "ApiHandler [(''payu'', ''/payu/update'')]"
  have known: "''payu'' \<in> set (dict_keys (endpoints ?h))"
    by (simp add: ApiHandler_def dict_keys_def)
  have x: "extra_fields ?h = [(''payu'', [])]" and p: "pop_fields ?h = []"
    by (simp_all add: ApiHandler_def dict_keys_def)
  note t1 = configuration_replaces [where service = "''payu''" and h = ?h
      and ?d1.0 = "[(''model'', PyStr ''X'')]" and ?d2.0 = "[]"
      and ?fs1.0 = "[''a'']" and ?fs2.0 = "[''b'']"
      and ?f1.0 = "PyDict []" and ?f2.0 = "PyDict []"
      and ?g1.0 = "PyList [PyStr ''a'']" and ?g2.0 = "PyList [PyStr ''b'']",
      unfolded Let_def str_dict_def str_list_def, THEN conjunct1, THEN mp, OF known]
  note t2 = configuration_replaces [where service = "''payu''" and h = ?h
      and ?d1.0 = "[(''model'', PyStr ''X'')]" and ?d2.0 = "[(''n'', PyInt 2)]"
      and ?fs1.0 = "[''a'']" and ?fs2.0 = "[''b'']"
      and ?f1.0 = "PyDict []" and ?f2.0 = "PyDict []"
      and ?g1.0 = "PyList [PyStr ''a'']" and ?g2.0 = "PyList [PyStr ''b'']",
      unfolded Let_def str_dict_def str_list_def]
  have a: "add_extra_fields ''payu'' (PyDict [(PyStr ''model'', PyStr ''X'')]) ?h
      = (Inr (), ?h\<lparr>extra_fields := AList.update ''payu'' [(''model'', PyStr ''X'')] (extra_fields ?h)\<rparr>)"
    using t1 [THEN conjunct1] by simp
  have b: "add_extra_fields ''payu'' (PyDict [])
        (snd (add_extra_fields ''payu'' (PyDict [(PyStr ''model'', PyStr ''X'')]) ?h))
      = (Inr (), ?h\<lparr>extra_fields := AList.update ''payu'' [] (extra_fields ?h)\<rparr>)"
    using t1 [THEN conjunct2, THEN conjunct2, THEN conjunct1] by simp
  have c: "add_extra_fields ''payu'' (PyDict [(PyStr ''n'', PyInt 2)])
        (snd (add_extra_fields ''payu'' (PyDict [(PyStr ''model'', PyStr ''X'')]) ?h))
      = (Inr (), ?h\<lparr>extra_fields := AList.update ''payu'' [(''n'', PyInt 2)] (extra_fields ?h)\<rparr>)"
    using t2 [THEN conjunct1, THEN mp, OF known, THEN conjunct2, THEN conjunct2, THEN conjunct1]
    by simp
  have d: "remove_fields ''payu'' (PyList [PyStr ''b''])
        (snd (remove_fields ''payu'' (PyList [PyStr ''a'']) ?h))
      = (Inr (), ?h\<lparr>pop_fields := AList.update ''payu'' [''b''] (pop_fields ?h)\<rparr>)"
    using t2 [THEN conjunct2, THEN conjunct1, THEN conjunct2, THEN conjunct2, THEN conjunct1]
    by simp
  show ?thesis
    using a b c d by (simp add: known x p)
qed

text \<open>
  C9. \<^verbatim>\<open>add_extra_fields\<close> rejects an argument that is not a dictionary with string
  keys, a list for instance, with \<^verbatim>\<open>ValidationError\<close>, which is not the \<^verbatim>\<open>KeyError\<close> of an
  unknown service; the handler state is unchanged, and the rejection does not depend on
  the service being known. A string-keyed dictionary for a known service is accepted.
\<close>

theorem extra_fields_validated:
  "(\<not> (\<exists>kvs. flds = PyDict kvs \<and> (\<forall>k \<in> set (map fst kvs). \<exists>s. k = PyStr s)) \<longrightarrow>
      add_extra_fields service flds h = (Inl ValidationError, h))
   \<and> add_extra_fields service (PyList xs) h = (Inl ValidationError, h)
   \<and> ValidationError \<noteq> KeyError (EndpointNotFound service)
   \<and> (service \<in> set (dict_keys (endpoints h)) \<longrightarrow>
        add_extra_fields service (str_dict d) h =
          (Inr (), h\<lparr>extra_fields := AList.update service d (extra_fields h)\<rparr>))"
  using validate_dict_reject [of flds]
  by (auto simp: add_extra_fields_def validate_str_dict) (simp add: validate_dict_str_any_def)

theorem extra_fields_validated_witness:
  "add_extra_fields ''catalog'' (PyList [PyStr ''invalid'', PyStr ''type''])
      (ApiHandler [(''catalog'', ''/intake/update''), (''payu'', ''/payu/update'')])
     = (Inl ValidationError, ApiHandler [(''catalog'', ''/intake/update''), (''payu'', ''/payu/update'')])
   \<and> add_extra_fields ''catalog'' (PyDict [(PyInt 1, PyStr ''x'')])
      (ApiHandler [(''catalog'', ''/intake/update''), (''payu'', ''/payu/update'')])
     = (Inl ValidationError, ApiHandler [(''catalog'', ''/intake/update''), (''payu'', ''/payu/update'')])
   \<and> fst (add_extra_fields ''payu'' (str_dict [(''model'', PyStr ''ACCESS-OM2''), (''random_number'', PyInt 2)])
      (ApiHandler [(''catalog'', ''/intake/update''), (''payu'', ''/payu/update'')])) = Inr ()"
proof -
  let ?h = "ApiHandler [(''catalog'', ''/intake/update''), (''payu'', ''/payu/update'')]"
  have bad: "\<not> (\<exists>kvs. PyDict [(PyInt 1, PyStr ''x'')] = PyDict kvs
      \<and> (\<forall>k \<in> set (map fst kvs). \<exists>s. k = PyStr s))"
    by simp
  have known: "''payu'' \<in> set (dict_keys (endpoints ?h))"
    by (simp add: ApiHandler_def dict_keys_def)
  show ?thesis
    using extra_fields_validated [of "PyDict [(PyInt 1, PyStr ''x'')]" "''catalog''" ?h
        "[PyStr ''invalid'', PyStr ''type'']"] bad
      extra_fields_validated [of "PyNone" "''payu''" ?h "[]"
        "[(''model'', PyStr ''ACCESS-OM2''), (''random_number'', PyInt 2)]"] known
    by simp
qed

text \<open>
  C8. \<^verbatim>\<open>remove_fields\<close> called with the single string \<^verbatim>\<open>"name"\<close>: the decorator hands the
  body an iterator, not the string, so the \<^verbatim>\<open>isinstance(fields, str)\<close> test does not
  fire and the suppression list becomes the four characters. The body alone, given a
  string, stores the one-element list. A list of strings is stored as it is, for any
  service name, in the endpoint map or not.
\<close>

theorem remove_fields_single_string:
  "remove_fields service (PyStr ''name'') h =
     (Inr (), h\<lparr>pop_fields := AList.update service [''n'', ''a'', ''m'', ''e''] (pop_fields h)\<rparr>)
   \<and> remove_fields_body service (PyStr s) h =
     (Inr (), h\<lparr>pop_fields := AList.update service [s] (pop_fields h)\<rparr>)
   \<and> remove_fields service (str_list fs) h =
     (Inr (), h\<lparr>pop_fields := AList.update service fs (pop_fields h)\<rparr>)"
  by (simp add: remove_fields_str_list)
     (simp add: remove_fields_def remove_fields_body_def validate_iterable_def list_of_fields_def)

section \<open>Sending a request\<close>

lemma send_in_loop_returns: "fst (send_in_loop env endpoint data w) = Inr ()"
  by (cases env) (simp_all add: send_in_loop_def Let_def)

lemma create_telemetry_record_cases:
  "(\<exists>f. create_telemetry_record user timestamp service fn args kwargs h ss
          = (Inl (KeyError (MissingField f)), h, snd (SessionID_new user timestamp ss)))
   \<or> (\<exists>d. create_telemetry_record user timestamp service fn args kwargs h ss
          = (Inr d, h\<lparr>last_record := Some d\<rparr>, snd (SessionID_new user timestamp ss)))"
proof (cases "pop_each (dict_get (pop_fields h) service [])
    (telemetry_data user fn args kwargs (fst (SessionID_new user timestamp ss))
       (dict_get (extra_fields h) service []))")
  case (Inl e)
  then show ?thesis
    using pop_each_result [OF Inl] by (auto simp: create_telemetry_record_unfold)
next
  case (Inr d)
  then show ?thesis by (simp add: create_telemetry_record_unfold)
qed

lemma send_api_request_raises_only_KeyError:
  "fst (send_api_request user timestamp env service fn args kwargs h ss w) = Inl e \<Longrightarrow>
     \<exists>k. e = KeyError k"
  using create_telemetry_record_cases [of user timestamp service fn args kwargs h ss]
    send_in_loop_returns
  by (auto simp: send_api_request_def split: option.splits prod.splits sum.splits)
     (metis Inl_Inr_False fst_conv)

lemma send_api_request_known:
  assumes "map_of (endpoints h) service = Some ep"
    and "fst (create_telemetry_record user timestamp service fn args kwargs h ss) = Inr d"
  shows "send_api_request user timestamp env service fn args kwargs h ss w =
     (fst (send_in_loop env (server_url h @ ep) d w), h\<lparr>last_record := Some d\<rparr>,
      snd (SessionID_new user timestamp ss), snd (send_in_loop env (server_url h @ ep) d w))"
proof -
  from assms(2) have c: "create_telemetry_record user timestamp service fn args kwargs h ss
      = (Inr d, h\<lparr>last_record := Some d\<rparr>, snd (SessionID_new user timestamp ss))"
    using create_telemetry_record_cases [of user timestamp service fn args kwargs h ss] by auto
  show ?thesis
    using assms(1) by (simp add: send_api_request_def c split: prod.splits)
qed

text \<open>
  C2. A delivery failure, \<^verbatim>\<open>httpx.RequestError\<close> or \<^verbatim>\<open>httpx.HTTPStatusError\<close>, is caught
  inside \<^verbatim>\<open>send_telemetry\<close>, which issues one \<^verbatim>\<open>RuntimeWarning\<close> and returns. For a known
  service whose record is built, \<^verbatim>\<open>send_api_request\<close> returns normally on both paths.
  With a loop running it schedules the coroutine, and when the loop runs it the failed
  request ends in the warning. Without a running loop the coroutine is submitted to a
  loop that nothing runs: no request is posted and no warning is issued, whatever the
  server would answer; the call prints that the coroutine took too long. On no path
  does \<^verbatim>\<open>send_api_request\<close> raise anything but a \<^verbatim>\<open>KeyError\<close> of building the record or of
  the endpoint lookup.
\<close>

theorem delivery_failure_by_path:
  "((e = RequestError m \<or> e = HTTPStatusError m) \<longrightarrow>
      send_telemetry (PostRaises e) url data w =
        (Inr (), w\<lparr>printed := printed w @ [''Posting telemetry to '' @ url],
                   warned := warned w @ [''Request failed: '' @ m]\<rparr>)
    \<and> fst (run_task (PostRaises e) w) = Inr ()
    \<and> (map_of (endpoints h) service = Some ep
         \<and> fst (create_telemetry_record user timestamp service fn args kwargs h ss) = Inr d
         \<and> tasks w = [] \<longrightarrow>
         run_task (PostRaises e)
           (snd (snd (snd (send_api_request user timestamp LoopRunning service fn args kwargs h ss w))))
           = (Inr (), w\<lparr>printed := printed w @ [''Posting telemetry to '' @ server_url h @ ep],
                        warned := warned w @ [''Request failed: '' @ m]\<rparr>)))
   \<and> (map_of (endpoints h) service = Some ep
        \<and> fst (create_telemetry_record user timestamp service fn args kwargs h ss) = Inr d \<longrightarrow>
        send_api_request user timestamp LoopRunning service fn args kwargs h ss w =
          (Inr (), h\<lparr>last_record := Some d\<rparr>, snd (SessionID_new user timestamp ss),
           w\<lparr>tasks := tasks w @ [(server_url h @ ep, d)]\<rparr>)
      \<and> send_api_request user timestamp NoLoop service fn args kwargs h ss w =
          (Inr (), h\<lparr>last_record := Some d\<rparr>, snd (SessionID_new user timestamp ss),
           w\<lparr>submitted := submitted w @ [(server_url h @ ep, d)],
             printed := printed w @ [''The coroutine took too long to complete'']\<rparr>)
      \<and> warned (snd (snd (snd (send_api_request user timestamp NoLoop service fn args kwargs h ss w))))
          = warned w
      \<and> tasks (snd (snd (snd (send_api_request user timestamp NoLoop service fn args kwargs h ss w))))
          = tasks w)
   \<and> (\<forall>env x. fst (send_api_request user timestamp env service fn args kwargs h ss w) = Inl x \<longrightarrow>
          (\<exists>k. x = KeyError k))
   \<and> (\<forall>env. fst (send_in_loop env url data w) = Inr ())"
proof -
  have st: "send_telemetry (PostRaises e) u c v =
       (Inr (), v\<lparr>printed := printed v @ [''Posting telemetry to '' @ u],
                  warned := warned v @ [''Request failed: '' @ m]\<rparr>)"
    if "e = RequestError m \<or> e = HTTPStatusError m" for u c v
    using that by (auto simp: send_telemetry_def Let_def)
  have run: "fst (run_task (PostRaises e) v) = Inr ()"
    if "e = RequestError m \<or> e = HTTPStatusError m" for v
    using that by (cases "tasks v") (auto simp: run_task_def st)
  have loop: "send_api_request user timestamp LoopRunning service fn args kwargs h ss w =
          (Inr (), h\<lparr>last_record := Some d\<rparr>, snd (SessionID_new user timestamp ss),
           w\<lparr>tasks := tasks w @ [(server_url h @ ep, d)]\<rparr>)"
    and noloop: "send_api_request user timestamp NoLoop service fn args kwargs h ss w =
          (Inr (), h\<lparr>last_record := Some d\<rparr>, snd (SessionID_new user timestamp ss),
           w\<lparr>submitted := submitted w @ [(server_url h @ ep, d)],
             printed := printed w @ [''The coroutine took too long to complete'']\<rparr>)"
    if "map_of (endpoints h) service = Some ep"
      "fst (create_telemetry_record user timestamp service fn args kwargs h ss) = Inr d"
    using send_api_request_known [OF that] by (simp_all add: send_in_loop_def Let_def)
  have later: "run_task (PostRaises e)
           (snd (snd (snd (send_api_request user timestamp LoopRunning service fn args kwargs h ss w))))
           = (Inr (), w\<lparr>printed := printed w @ [''Posting telemetry to '' @ server_url h @ ep],
                        warned := warned w @ [''Request failed: '' @ m]\<rparr>)"
    if "e = RequestError m \<or> e = HTTPStatusError m"
      "map_of (endpoints h) service = Some ep"
      "fst (create_telemetry_record user timestamp service fn args kwargs h ss) = Inr d"
      "tasks w = []"
    using that(4) by (simp add: loop [OF that(2,3)] run_task_def st [OF that(1)])
  show ?thesis
    using st run loop noloop later send_api_request_raises_only_KeyError
    by (simp add: send_in_loop_returns)
qed

theorem delivery_failure_by_path_witness:
  "send_api_request ''alice'' ''2024-05-01T12:00:00.000001'' NoLoop
      ''payu'' ''_test'' (PyList []) (PyDict [])
      ((ApiHandler [(''payu'', ''/payu/update'')])\<lparr>server_url := ''http://localhost:8000''\<rparr>)
      None
      \<lparr>printed = [], warned = [], tasks = [], submitted = []\<rparr>
    = (Inr (),
       (ApiHandler [(''payu'', ''/payu/update'')])
         \<lparr>server_url := ''http://localhost:8000'',
          last_record := Some [(''name'', PyStr ''alice''), (''function'', PyStr ''_test''),
            (''args'', PyList []), (''kwargs'', PyDict []), (''session_id'', PyStr (create_session_id ''alice'' ''2024-05-01T12:00:00.000001''))]\<rparr>,
       Some \<lparr>sid_value = Some (create_session_id ''alice'' ''2024-05-01T12:00:00.000001'')\<rparr>,
       \<lparr>printed = [''The coroutine took too long to complete''], warned = [], tasks = [],
        submitted = [(''http://localhost:8000/payu/update'',
          [(''name'', PyStr ''alice''), (''function'', PyStr ''_test''),
            (''args'', PyList []), (''kwargs'', PyDict []), (''session_id'', PyStr (create_session_id ''alice'' ''2024-05-01T12:00:00.000001''))])]\<rparr>)
   \<and> run_task (PostRaises (RequestError ''connection refused''))
        (snd (snd (snd (send_api_request ''alice'' ''2024-05-01T12:00:00.000001'' LoopRunning
           ''payu'' ''_test'' (PyList []) (PyDict [])
           ((ApiHandler [(''payu'', ''/payu/update'')])\<lparr>server_url := ''http://localhost:8000''\<rparr>)
           None
           \<lparr>printed = [], warned = [], tasks = [], submitted = []\<rparr>))))
    = (Inr (), \<lparr>printed = [''Posting telemetry to http://localhost:8000/payu/update''],
        warned = [''Request failed: connection refused''], tasks = [], submitted = []\<rparr>)"
proof -
  let ?h = "(ApiHandler [(''payu'', ''/payu/update'')])\<lparr>server_url := ''http://localhost:8000''\<rparr>"
  let ?ss = "None :: session_id option"
  let ?w = "\<lparr>printed = [], warned = [], tasks = [], submitted = []\<rparr>"
  let ?r = "[(''name'', PyStr ''alice''), (''function'', PyStr ''_test''),
            (''args'', PyList []), (''kwargs'', PyDict []), (''session_id'', PyStr (create_session_id ''alice'' ''2024-05-01T12:00:00.000001''))]"
  have rec: "fst (create_telemetry_record ''alice'' ''2024-05-01T12:00:00.000001'' ''payu'' ''_test''
      (PyList []) (PyDict []) ?h ?ss) = Inr ?r"
    by (simp add: create_telemetry_record_unfold SessionID_new_first ApiHandler_def dict_get_def
        dict_keys_def telemetry_data_def)
  have ep: "map_of (endpoints ?h) ''payu'' = Some ''/payu/update''"
    by (simp add: ApiHandler_def)
  have fail: "RequestError ''connection refused'' = RequestError ''connection refused''
      \<or> RequestError ''connection refused'' = HTTPStatusError ''connection refused''"
    by simp
  note t = delivery_failure_by_path [where e = "RequestError ''connection refused''"
      and m = "''connection refused''" and url = "''http://localhost:8000/payu/update''"
      and data = ?r and w = ?w and user = "''alice''" and service = "''payu''"
      and timestamp = "''2024-05-01T12:00:00.000001''" and ss = ?ss and ep = "''/payu/update''"
      and fn = "''_test''" and args = "PyList []" and kwargs = "PyDict []" and h = ?h and d = ?r]
  have a: "send_api_request ''alice'' ''2024-05-01T12:00:00.000001'' NoLoop
      ''payu'' ''_test'' (PyList []) (PyDict []) ?h ?ss ?w
      = (Inr (), ?h\<lparr>last_record := Some ?r\<rparr>,
         snd (SessionID_new ''alice'' ''2024-05-01T12:00:00.000001'' ?ss),
         ?w\<lparr>submitted := submitted ?w @ [(server_url ?h @ ''/payu/update'', ?r)],
            printed := printed ?w @ [''The coroutine took too long to complete'']\<rparr>)"
    using t [THEN conjunct2, THEN conjunct1] ep rec by blast
  have b: "run_task (PostRaises (RequestError ''connection refused''))
        (snd (snd (snd (send_api_request ''alice'' ''2024-05-01T12:00:00.000001'' LoopRunning
           ''payu'' ''_test'' (PyList []) (PyDict []) ?h ?ss ?w))))
      = (Inr (), ?w\<lparr>printed := printed ?w @ [''Posting telemetry to '' @ server_url ?h @ ''/payu/update''],
                     warned := warned ?w @ [''Request failed: '' @ ''connection refused'']\<rparr>)"
    using t [THEN conjunct1, THEN mp, OF fail] ep rec by simp
  show ?thesis
    unfolding a b by (simp add: SessionID_new_first ApiHandler_def)
qed

text \<open>
  C3, as the claim states it, fails: with endpoints \<^verbatim>\<open>{"payu": "/payu/update"}\<close> and no
  record built so far, \<^verbatim>\<open>send_api_request("nope", "_test", [], {})\<close> raises the
  \<^verbatim>\<open>KeyError\<close> of the unknown service, but the record was built before the endpoint
  lookup and is now the last record.
\<close>

theorem unknown_service_send_counterexample:
  "''nope'' \<notin> set (dict_keys (endpoints (ApiHandler [(''payu'', ''/payu/update'')])))
   \<and> last_record (ApiHandler [(''payu'', ''/payu/update'')]) = None
   \<and> send_api_request ''alice'' ''2024-05-01T12:00:00.000001'' LoopRunning ''nope'' ''_test''
        (PyList []) (PyDict [])
        (ApiHandler [(''payu'', ''/payu/update'')]) None
        \<lparr>printed = [], warned = [], tasks = [], submitted = []\<rparr>
     = (Inl (KeyError (EndpointNotFound ''nope'')),
        (ApiHandler [(''payu'', ''/payu/update'')])
          \<lparr>last_record := Some [(''name'', PyStr ''alice''), (''function'', PyStr ''_test''),
             (''args'', PyList []), (''kwargs'', PyDict []), (''session_id'', PyStr (create_session_id ''alice'' ''2024-05-01T12:00:00.000001''))]\<rparr>,
        Some \<lparr>sid_value = Some (create_session_id ''alice'' ''2024-05-01T12:00:00.000001'')\<rparr>,
        \<lparr>printed = [], warned = [], tasks = [], submitted = []\<rparr>)"
  by (simp add: send_api_request_def create_telemetry_record_unfold SessionID_new_first
      telemetry_data_def ApiHandler_def dict_get_def dict_keys_def)

text \<open>
  C3, amended. For a service name that is not in the endpoint map,
  \<^verbatim>\<open>add_extra_fields\<close> raises the \<^verbatim>\<open>KeyError\<close> of the unknown service for a string-keyed
  dictionary, raises for any argument, and leaves the handler as it was.
  \<^verbatim>\<open>send_api_request\<close> raises a \<^verbatim>\<open>KeyError\<close> and hands nothing to delivery: when the
  record is built, the \<^verbatim>\<open>KeyError\<close> of the unknown service, and the record has become the
  last record; when removing a suppressed field fails, that \<^verbatim>\<open>KeyError\<close>, and the handler
  is as it was. Server URL, endpoints, registries, extra fields and suppression lists are
  unchanged in both cases.
\<close>

theorem unknown_service_fails:
  "service \<notin> set (dict_keys (endpoints h)) \<longrightarrow>
     (add_extra_fields service (str_dict d) h = (Inl (KeyError (EndpointNotFound service)), h)
   \<and> (\<exists>e. add_extra_fields service flds h = (Inl e, h))
   \<and> (\<forall>r. fst (create_telemetry_record user timestamp service fn args kwargs h ss) = Inr r \<longrightarrow>
          send_api_request user timestamp env service fn args kwargs h ss w =
            (Inl (KeyError (EndpointNotFound service)), h\<lparr>last_record := Some r\<rparr>,
             snd (SessionID_new user timestamp ss), w))
   \<and> (\<forall>e. fst (create_telemetry_record user timestamp service fn args kwargs h ss) = Inl e \<longrightarrow>
          send_api_request user timestamp env service fn args kwargs h ss w =
            (Inl e, h, snd (SessionID_new user timestamp ss), w))
   \<and> (\<exists>k h'. send_api_request user timestamp env service fn args kwargs h ss w =
            (Inl (KeyError k), h', snd (SessionID_new user timestamp ss), w)
          \<and> server_url h' = server_url h \<and> endpoints h' = endpoints h
          \<and> registries h' = registries h \<and> extra_fields h' = extra_fields h
          \<and> pop_fields h' = pop_fields h))"
proof (intro impI)
  assume unknown: "service \<notin> set (dict_keys (endpoints h))"
  then have none: "map_of (endpoints h) service = None"
    by (simp add: dict_keys_def map_of_eq_None_iff)
  let ?ss1 = "snd (SessionID_new user timestamp ss)"
  have a: "add_extra_fields service (str_dict d) h = (Inl (KeyError (EndpointNotFound service)), h)"
    using unknown by (simp add: add_extra_fields_def validate_str_dict)
  have b: "\<exists>e. add_extra_fields service flds h = (Inl e, h)"
    using unknown by (auto simp: add_extra_fields_def split: sum.splits)
  have c: "send_api_request user timestamp env service fn args kwargs h ss w =
            (Inl (KeyError (EndpointNotFound service)), h\<lparr>last_record := Some r\<rparr>, ?ss1, w)"
    if "fst (create_telemetry_record user timestamp service fn args kwargs h ss) = Inr r" for r
    using that create_telemetry_record_cases [of user timestamp service fn args kwargs h ss] none
    by (auto simp: send_api_request_def)
  have d: "send_api_request user timestamp env service fn args kwargs h ss w = (Inl e, h, ?ss1, w)"
    if "fst (create_telemetry_record user timestamp service fn args kwargs h ss) = Inl e" for e
    using that create_telemetry_record_cases [of user timestamp service fn args kwargs h ss]
    by (auto simp: send_api_request_def)
  have e: "\<exists>k h'. send_api_request user timestamp env service fn args kwargs h ss w =
            (Inl (KeyError k), h', ?ss1, w)
          \<and> server_url h' = server_url h \<and> endpoints h' = endpoints h
          \<and> registries h' = registries h \<and> extra_fields h' = extra_fields h
          \<and> pop_fields h' = pop_fields h"
    using create_telemetry_record_cases [of user timestamp service fn args kwargs h ss] none
    by (auto simp: send_api_request_def)
  from a b c d e show "add_extra_fields service (str_dict d) h = (Inl (KeyError (EndpointNotFound service)), h)
   \<and> (\<exists>e. add_extra_fields service flds h = (Inl e, h))
   \<and> (\<forall>r. fst (create_telemetry_record user timestamp service fn args kwargs h ss) = Inr r \<longrightarrow>
          send_api_request user timestamp env service fn args kwargs h ss w =
            (Inl (KeyError (EndpointNotFound service)), h\<lparr>last_record := Some r\<rparr>, ?ss1, w))
   \<and> (\<forall>e. fst (create_telemetry_record user timestamp service fn args kwargs h ss) = Inl e \<longrightarrow>
          send_api_request user timestamp env service fn args kwargs h ss w = (Inl e, h, ?ss1, w))
   \<and> (\<exists>k h'. send_api_request user timestamp env service fn args kwargs h ss w =
            (Inl (KeyError k), h', ?ss1, w)
          \<and> server_url h' = server_url h \<and> endpoints h' = endpoints h
          \<and> registries h' = registries h \<and> extra_fields h' = extra_fields h
          \<and> pop_fields h' = pop_fields h)"
    by blast
qed

theorem unknown_service_fails_witness:
  "add_extra_fields ''nope'' (PyDict []) (ApiHandler [(''payu'', ''/payu/update'')])
     = (Inl (KeyError (EndpointNotFound ''nope'')), ApiHandler [(''payu'', ''/payu/update'')])
   \<and> send_api_request ''alice'' ''2024-05-01T12:00:00.000001'' NoLoop ''nope'' ''_test''
        (PyList []) (PyDict [])
        ((ApiHandler [(''payu'', ''/payu/update'')])\<lparr>pop_fields := [(''nope'', [''zzz''])]\<rparr>)
        None
        \<lparr>printed = [], warned = [], tasks = [], submitted = []\<rparr>
     = (Inl (KeyError (MissingField ''zzz'')),
        (ApiHandler [(''payu'', ''/payu/update'')])\<lparr>pop_fields := [(''nope'', [''zzz''])]\<rparr>,
        Some \<lparr>sid_value = Some (create_session_id ''alice'' ''2024-05-01T12:00:00.000001'')\<rparr>,
        \<lparr>printed = [], warned = [], tasks = [], submitted = []\<rparr>)"
proof -
  let ?h = "ApiHandler [(''payu'', ''/payu/update'')]"
  let ?g = "?h\<lparr>pop_fields := [(''nope'', [''zzz''])]\<rparr>"
  let ?ss = "None :: session_id option"
  let ?ss1 = "Some \<lparr>sid_value = Some (create_session_id ''alice'' ''2024-05-01T12:00:00.000001'')\<rparr>"
  have u: "''nope'' \<notin> set (dict_keys (endpoints ?h))" "''nope'' \<notin> set (dict_keys (endpoints ?g))"
    by (simp_all add: ApiHandler_def dict_keys_def)
  have f: "fst (create_telemetry_record ''alice'' ''2024-05-01T12:00:00.000001'' ''nope'' ''_test''
      (PyList []) (PyDict []) ?g ?ss) = Inl (KeyError (MissingField ''zzz''))"
    by (simp add: create_telemetry_record_unfold SessionID_new_first telemetry_data_def
        ApiHandler_def dict_get_def dict_keys_def)
  show ?thesis
    using unknown_service_fails [where service = "''nope''" and h = ?h and d = "[]"
        and user = "''alice''" and timestamp = "''2024-05-01T12:00:00.000001''" and ss = ?ss
        and fn = "''_test''" and args = "PyList []" and kwargs = "PyDict []"
        and env = "NoLoop" and w = "\<lparr>printed = [], warned = [], tasks = [], submitted = []\<rparr>"
        and flds = "PyDict []", THEN mp, OF u(1)]
      unknown_service_fails [where service = "''nope''" and h = ?g and user = "''alice''"
        and timestamp = "''2024-05-01T12:00:00.000001''" and ss = ?ss
        and fn = "''_test''" and args = "PyList []" and kwargs = "PyDict []"
        and env = "NoLoop" and w = "\<lparr>printed = [], warned = [], tasks = [], submitted = []\<rparr>"
        and flds = "PyDict []" and d = "[]", THEN mp, OF u(2)] f
    by (simp add: str_dict_def SessionID_new_first)
qed

end
